theory Spec2Isabelle
  imports Complex_Main "HOL-Library.AList"
begin

section \<open>JavaScript values used by the email subsystem\<close>

text \<open>
  A JavaScript \<^verbatim>\<open>Date\<close> is a number of milliseconds since the epoch, so a date is an
  \<^typ>\<open>int\<close>. The calendar functions (\<^verbatim>\<open>getFullYear\<close>, \<^verbatim>\<open>getMonth\<close>,
  \<^verbatim>\<open>toDateString\<close>) are those of a process running in UTC. Numbers that the code only
  ever initialises to 0, increments or resets to 0 are naturals; every other number is
  an integer. The result of a division is a rational, rounded to a double where the
  rounding can be seen (see below).
\<close>

type_synonym date = int

definition msPerDay :: int where
  "msPerDay = 86400000"

definition epochDay :: "date \<Rightarrow> int" where
  "epochDay d = d div msPerDay"

text \<open>
  The civil calendar, from the number of a day counted from 1970-01-01: the day is placed
  in its 400-year era, in a year that starts on 1 March.
\<close>

definition dayOfEra :: "int \<Rightarrow> int" where
  "dayOfEra z = (z + 719468) mod 146097"

definition yearOfEra :: "int \<Rightarrow> int" where
  "yearOfEra z =
     (dayOfEra z - dayOfEra z div 1460 + dayOfEra z div 36524 - dayOfEra z div 146096) div 365"

definition dayOfMarchYear :: "int \<Rightarrow> int" where
  "dayOfMarchYear z =
     dayOfEra z - (365 * yearOfEra z + yearOfEra z div 4 - yearOfEra z div 100)"

definition marchMonth :: "int \<Rightarrow> int" where
  "marchMonth z = (5 * dayOfMarchYear z + 2) div 153"

definition civilMonth :: "int \<Rightarrow> int" where
  "civilMonth z = (if marchMonth z < 10 then marchMonth z + 3 else marchMonth z - 9)"

definition civilDay :: "int \<Rightarrow> int" where
  "civilDay z = dayOfMarchYear z - (153 * marchMonth z + 2) div 5 + 1"

definition civilYear :: "int \<Rightarrow> int" where
  "civilYear z =
     yearOfEra z + ((z + 719468) div 146097) * 400 + (if civilMonth z \<le> 2 then 1 else 0)"

definition getFullYear :: "date \<Rightarrow> int" where
  "getFullYear d = civilYear (epochDay d)"

definition getMonth :: "date \<Rightarrow> int" where
  "getMonth d = civilMonth (epochDay d) - 1"

definition getDate :: "date \<Rightarrow> int" where
  "getDate d = civilDay (epochDay d)"

definition getDay :: "date \<Rightarrow> int" where
  "getDay d = (epochDay d + 4) mod 7"

fun string_of_nat :: "nat \<Rightarrow> string" where
  "string_of_nat n =
     (if n < 10 then [''0123456789'' ! n]
      else string_of_nat (n div 10) @ [''0123456789'' ! (n mod 10)])"

declare string_of_nat.simps [simp del]

definition string_of_int :: "int \<Rightarrow> string" where
  "string_of_int i = (if i < 0 then ''-'' @ string_of_nat (nat (- i)) else string_of_nat (nat i))"

definition padStart :: "nat \<Rightarrow> char \<Rightarrow> string \<Rightarrow> string" where
  "padStart n c s = replicate (n - length s) c @ s"

definition dayNames :: "string list" where
  "dayNames = [''Sun'', ''Mon'', ''Tue'', ''Wed'', ''Thu'', ''Fri'', ''Sat'']"

definition monthNames :: "string list" where
  "monthNames = [''Jan'', ''Feb'', ''Mar'', ''Apr'', ''May'', ''Jun'',
                 ''Jul'', ''Aug'', ''Sep'', ''Oct'', ''Nov'', ''Dec'']"

definition yearString :: "int \<Rightarrow> string" where
  "yearString y =
     (if y < 0 then ''-'' @ padStart 6 (CHR ''0'') (string_of_nat (nat (- y)))
      else padStart 4 (CHR ''0'') (string_of_nat (nat y)))"

definition toDateString :: "date \<Rightarrow> string" where
  "toDateString d =
     dayNames ! nat (getDay d) @ '' '' @ monthNames ! nat (getMonth d) @ '' ''
       @ padStart 2 (CHR ''0'') (string_of_int (getDate d)) @ '' '' @ yearString (getFullYear d)"

text \<open>The month key of the configuration, as the template literal of the source builds it.\<close>

definition monthKey :: "date \<Rightarrow> string" where
  "monthKey now =
     string_of_int (getFullYear now) @ ''-''
       @ padStart 2 (CHR ''0'') (string_of_int (getMonth now + 1))"

text \<open>\<^verbatim>\<open>Math.round\<close>: the nearest integer, a tie going up.\<close>

definition Math_round :: "rat \<Rightarrow> int" where
  "Math_round x = \<lfloor>x + 1 / 2\<rfloor>"

text \<open>
  A JavaScript number is an IEEE 754 double: the result of \<^verbatim>\<open>/\<close> and of \<^verbatim>\<open>*\<close> is the
  exact result rounded to 53 significant bits, to the nearest such value, a tie going to
  the even significand. \<open>toDouble\<close> is that rounding; the range of the exponent is not
  bounded here (the quotients and products below stay far inside it). \<open>exponentOf x\<close> is
  the exponent \<open>e\<close> with \<open>2\<^sup>e \<le> x < 2\<^sup>e\<^sup>+\<^sup>1\<close> of a positive \<open>x\<close>, and \<open>ulp x\<close> the distance
  between neighbouring doubles there.

  \<^verbatim>\<open>Math.round(a / b)\<close> of two integers is written with the exact quotient: as long as the
  numerator stays below \<open>2\<^sup>5\<^sup>2\<close>, rounding the quotient to a double does not carry it across
  a half. \<^verbatim>\<open>Math.round((a / b) * 100)\<close> is written with both roundings, which do show: the
  double nearest to 23 / 40 lies below it, and the product is rounded to a double below
  57.5.
\<close>

fun bitLength :: "nat \<Rightarrow> nat" where
  "bitLength n = (if n = 0 then 0 else Suc (bitLength (n div 2)))"

declare bitLength.simps [simp del]

definition exponentOf :: "rat \<Rightarrow> int" where
  "exponentOf x =
     (if 1 \<le> x then int (bitLength (nat \<lfloor>x\<rfloor>)) - 1
      else - int (bitLength (nat (\<lceil>1 / x\<rceil> - 1))))"

definition roundTiesToEven :: "rat \<Rightarrow> int" where
  "roundTiesToEven x =
     (if x - of_int \<lfloor>x\<rfloor> < 1 / 2 then \<lfloor>x\<rfloor>
      else if 1 / 2 < x - of_int \<lfloor>x\<rfloor> then \<lfloor>x\<rfloor> + 1
      else if even \<lfloor>x\<rfloor> then \<lfloor>x\<rfloor> else \<lfloor>x\<rfloor> + 1)"

definition ulp :: "rat \<Rightarrow> rat" where
  "ulp x = (if 52 \<le> exponentOf x then 2 ^ nat (exponentOf x - 52)
            else 1 / 2 ^ nat (52 - exponentOf x))"

definition toDouble :: "rat \<Rightarrow> rat" where
  "toDouble x =
     (if x = 0 then 0
      else if 0 < x then of_int (roundTiesToEven (x / ulp x)) * ulp x
      else - (of_int (roundTiesToEven (- x / ulp (- x))) * ulp (- x)))"

section \<open>The sender configuration (EmailConfigSchema)\<close>

record email_config =
  configId :: nat
  service :: string
  email :: string
  appPassword :: string
  fromName :: string
  isActive :: bool
  dailyLimit :: int
  emailsSentToday :: nat
  lastResetDate :: date
  monthlyEmailsSent :: nat
  currentMonth :: string
  totalEmailsSent :: nat
  totalEmailsFailed :: nat
  successRate :: int
  errorCount :: nat
  lastErrorMessage :: string
  lastErrorAt :: "date option"
  consecutiveFailures :: nat
  lastSuccessfulSend :: "date option"
  averageSendTime :: int
  lastUsedIP :: "string option"
  suspiciousActivityCount :: nat
  lastSuspiciousActivity :: "date option"
  createdAt :: date
  updatedAt :: date

text \<open>
  Every method of the schema ends in \<^verbatim>\<open>this.save()\<close>: the record a method returns is
  the document as it is in memory and as it is persisted. The argument \<open>now\<close> is the
  reading of the clock (\<^verbatim>\<open>new Date()\<close>) of the call.
\<close>

definition resetDailyCounterIfNeeded :: "date \<Rightarrow> email_config \<Rightarrow> email_config" where
  "resetDailyCounterIfNeeded now c =
     (let today = toDateString now;
          lastReset = toDateString (lastResetDate c);
          c1 = (if today \<noteq> lastReset
                then c\<lparr>emailsSentToday := 0, lastResetDate := now\<rparr> else c);
          cm = monthKey now
      in if currentMonth c1 \<noteq> cm
         then c1\<lparr>monthlyEmailsSent := 0, currentMonth := cm\<rparr> else c1)"

definition updateSuccessRate :: "email_config \<Rightarrow> email_config" where
  "updateSuccessRate c =
     (let totalAttempts = totalEmailsSent c + totalEmailsFailed c
      in c\<lparr>successRate :=
           (if totalAttempts > 0
            then Math_round (toDouble (toDouble (of_nat (totalEmailsSent c) / of_nat totalAttempts)
                                         * 100))
            else 0)\<rparr>)"

definition recordSuccessfulSend :: "date \<Rightarrow> int \<Rightarrow> email_config \<Rightarrow> email_config" where
  "recordSuccessfulSend now sendTime c =
     (let c1 = c\<lparr>totalEmailsSent := totalEmailsSent c + 1,
                  emailsSentToday := emailsSentToday c + 1,
                  monthlyEmailsSent := monthlyEmailsSent c + 1,
                  lastSuccessfulSend := Some now,
                  consecutiveFailures := 0\<rparr>;
          c2 = (if sendTime \<noteq> 0
                then (let totalSends = totalEmailsSent c1 + totalEmailsFailed c1
                      in c1\<lparr>averageSendTime :=
                           Math_round (of_int (averageSendTime c1 * (int totalSends - 1) + sendTime)
                                       / of_nat totalSends)\<rparr>)
                else c1)
      in updateSuccessRate c2)"

definition recordFailedSend :: "date \<Rightarrow> string \<Rightarrow> email_config \<Rightarrow> email_config" where
  "recordFailedSend now errorMessage c =
     updateSuccessRate
       (c\<lparr>totalEmailsFailed := totalEmailsFailed c + 1,
          errorCount := errorCount c + 1,
          consecutiveFailures := consecutiveFailures c + 1,
          lastErrorMessage := errorMessage,
          lastErrorAt := Some now\<rparr>)"

definition recordSuspiciousActivity :: "date \<Rightarrow> string \<Rightarrow> email_config \<Rightarrow> email_config" where
  "recordSuspiciousActivity now ipAddress c =
     c\<lparr>suspiciousActivityCount := suspiciousActivityCount c + 1,
       lastSuspiciousActivity := Some now,
       lastUsedIP := Some ipAddress\<rparr>"

section \<open>The email service (EmailService)\<close>

datatype js_error = Error string | TypeError string | ValidationError string | DocumentNotFoundError string

fun errorMessage :: "js_error \<Rightarrow> string" where
  "errorMessage (Error m) = m"
| "errorMessage (TypeError m) = m"
| "errorMessage (ValidationError m) = m"
| "errorMessage (DocumentNotFoundError m) = m"

record mail_transport =
  transportService :: string
  authUser :: string
  authPass :: string
  pool :: bool
  maxConnections :: nat
  maxMessages :: nat

record performance_metrics =
  sendTimes :: "int list"
  sessionErrorCount :: nat
  successCount :: nat

record email_service =
  transporter :: "mail_transport option"
  currentConfig :: "email_config option"
  performanceMetrics :: performance_metrics

record mail_message =
  mailFrom :: string
  mailTo :: string
  subject :: string
  html :: string

text \<open>
  What the mail transport answers to one message is outside the program: it either
  accepts the message (with a message id) or rejects it (with an error message), after
  some milliseconds.
\<close>

datatype smtp_outcome = Accepted string int | Rejected string int

datatype send_result = SendSucceeded string int | SendFailed string int

fun success :: "send_result \<Rightarrow> bool" where
  "success (SendSucceeded messageId sendTime) = True"
| "success (SendFailed err sendTime) = False"

text \<open>
  The part of the world the service reads and writes: its own fields, the active
  configuration document of the database (what \<^verbatim>\<open>EmailConfig.findOne({ isActive: true })\<close>
  returns, and where a saved configuration goes) and the clock. Asynchronous calls are
  run one after the other; a send takes the time the transport takes.
\<close>

record mail_system =
  svc :: email_service
  activeConfig :: "email_config option"
  clock :: date

definition createTransport :: "email_config \<Rightarrow> mail_transport" where
  "createTransport config =
     \<lparr>transportService = service config, authUser = email config,
      authPass = appPassword config, pool = True, maxConnections = 5, maxMessages = 100\<rparr>"

definition truthy :: "string \<Rightarrow> bool" where
  "truthy s = (s \<noteq> [])"

text \<open>
  \<^verbatim>\<open>initializeTransporter\<close> returns the error it throws, if any, beside the system it
  leaves: a configuration saved before the throw stays saved.
\<close>

definition initializeTransporter :: "string \<Rightarrow> mail_system \<Rightarrow> js_error option \<times> mail_system" where
  "initializeTransporter ipAddress m =
     (case activeConfig m of
        None \<Rightarrow> (Some (Error ''No active email configuration found''), m)
      | Some config0 \<Rightarrow>
          (let config1 = resetDailyCounterIfNeeded (clock m) config0;
               config2 =
                 (case lastUsedIP config1 of
                    Some prev \<Rightarrow>
                      if truthy ipAddress \<and> truthy prev \<and> prev \<noteq> ipAddress
                      then recordSuspiciousActivity (clock m) ipAddress config1
                      else config1\<lparr>lastUsedIP := Some ipAddress\<rparr>
                  | None \<Rightarrow> config1\<lparr>lastUsedIP := Some ipAddress\<rparr>)
           in if int (emailsSentToday config2) \<ge> dailyLimit config2
              then (Some (Error (''Daily email limit reached (''
                                  @ string_of_int (dailyLimit config2) @ '')'')),
                    m\<lparr>activeConfig := Some config2\<rparr>)
              else (None,
                    m\<lparr>svc := (svc m)\<lparr>transporter := Some (createTransport config2),
                                      currentConfig := Some config2\<rparr>,
                      activeConfig := Some config2\<rparr>)))"

text \<open>
  The \<^verbatim>\<open>try\<close> and \<^verbatim>\<open>catch\<close> of \<^verbatim>\<open>sendEmail\<close>: the message is handed to the transport, and
  the outcome is recorded in the session metrics and in the configuration. Without a
  current configuration both blocks fail on reading it, and the error leaves the function.
\<close>

definition transmit ::
  "(mail_message \<Rightarrow> smtp_outcome) \<Rightarrow> string \<Rightarrow> string \<Rightarrow> string \<Rightarrow> mail_system
     \<Rightarrow> (js_error + send_result) \<times> mail_system" where
  "transmit sendMail recipient subj body m =
     (case currentConfig (svc m) of
        None \<Rightarrow>
          (Inl (TypeError ''Cannot read properties of null''),
           m\<lparr>svc := (svc m)\<lparr>performanceMetrics :=
                  (performanceMetrics (svc m))\<lparr>sessionErrorCount :=
                     sessionErrorCount (performanceMetrics (svc m)) + 1\<rparr>\<rparr>\<rparr>)
      | Some config \<Rightarrow>
          (case sendMail \<lparr>mailFrom = [CHR 0x22] @ fromName config @ [CHR 0x22] @ '' <'' @ email config @ ''>'',
                          mailTo = recipient, subject = subj, html = body\<rparr> of
             Accepted messageId elapsed \<Rightarrow>
               (let now = clock m + elapsed;
                    sendTime = elapsed;
                    pm = performanceMetrics (svc m);
                    pm' = pm\<lparr>sendTimes := sendTimes pm @ [sendTime],
                              successCount := successCount pm + 1\<rparr>;
                    config' = recordSuccessfulSend now sendTime config
                in (Inr (SendSucceeded messageId sendTime),
                    m\<lparr>svc := (svc m)\<lparr>performanceMetrics := pm', currentConfig := Some config'\<rparr>,
                      activeConfig := Some config', clock := now\<rparr>))
           | Rejected err elapsed \<Rightarrow>
               (let now = clock m + elapsed;
                    sendTime = elapsed;
                    pm = performanceMetrics (svc m);
                    pm' = pm\<lparr>sessionErrorCount := sessionErrorCount pm + 1\<rparr>;
                    config' = recordFailedSend now err config
                in (Inr (SendFailed err sendTime),
                    m\<lparr>svc := (svc m)\<lparr>performanceMetrics := pm', currentConfig := Some config'\<rparr>,
                      activeConfig := Some config', clock := now\<rparr>))))"

definition sendEmail ::
  "(mail_message \<Rightarrow> smtp_outcome) \<Rightarrow> string \<Rightarrow> string \<Rightarrow> string \<Rightarrow> string \<Rightarrow> mail_system
     \<Rightarrow> (js_error + send_result) \<times> mail_system" where
  "sendEmail sendMail recipient subj body ipAddress m =
     (case transporter (svc m) of
        None \<Rightarrow>
          (case initializeTransporter ipAddress m of
             (Some e, m') \<Rightarrow> (Inl e, m')
           | (None, m') \<Rightarrow> transmit sendMail recipient subj body m')
      | Some t \<Rightarrow> transmit sendMail recipient subj body m)"

section \<open>Campaign documents (PromotionalEmailSchema)\<close>

text \<open>
  A document of the database is a list of paths with their values. The model compiled from
  \<^verbatim>\<open>PromotionalEmailSchema\<close> keeps the default strict mode: a path that the schema does not
  declare is neither read from an object given to \<^verbatim>\<open>create\<close> nor written by
  \<^verbatim>\<open>save\<close>. The schema declares the paths below (the last two by its
  \<^verbatim>\<open>timestamps\<close> option) and the three values of \<^verbatim>\<open>status\<close>.
\<close>

datatype js_value = Num int | Str string | DateV date | ObjectId nat

type_synonym document = "(string \<times> js_value) list"

definition PromotionalEmailSchema_paths :: "string list" where
  "PromotionalEmailSchema_paths =
     [''_id'', ''title'', ''content'', ''buttonText'', ''buttonLink'', ''contactEmail'',
      ''contactPhone'', ''sentCount'', ''failedCount'', ''status'', ''configUsed'',
      ''createdAt'', ''updatedAt'']"

definition statusEnum :: "string list" where
  "statusEnum = [''sending'', ''completed'', ''failed'']"

record error_entry =
  recipient :: string
  errorText :: string
  loggedAt :: date

record performance_entry =
  batchNumber :: nat
  sentInBatch :: nat
  failedInBatch :: nat
  averageBatchTime :: int

text \<open>
  A campaign document in memory: the declared paths, then the properties that the
  controller assigns to the object although the schema does not declare them, and the two
  logs kept by \<^verbatim>\<open>addError\<close> and \<^verbatim>\<open>addPerformanceLog\<close>.
\<close>

record promotional_email =
  oid :: nat
  title :: string
  content :: string
  buttonText :: string
  buttonLink :: string
  contactEmail :: string
  contactPhone :: string
  sentCount :: nat
  failedCount :: nat
  status :: string
  configUsed :: "nat option"
  created :: date
  updated :: date
  progress :: "int option"
  endTime :: "date option"
  duration :: "int option"
  campaignAverageSendTime :: "int option"
  errors :: "error_entry list"
  performanceLog :: "performance_entry list"

definition toObject :: "promotional_email \<Rightarrow> document" where
  "toObject d =
     [(''_id'', ObjectId (oid d)), (''title'', Str (title d)), (''content'', Str (content d)),
      (''buttonText'', Str (buttonText d)), (''buttonLink'', Str (buttonLink d)),
      (''contactEmail'', Str (contactEmail d)), (''contactPhone'', Str (contactPhone d)),
      (''sentCount'', Num (int (sentCount d))), (''failedCount'', Num (int (failedCount d))),
      (''status'', Str (status d))]
     @ (case configUsed d of None \<Rightarrow> [] | Some c \<Rightarrow> [(''configUsed'', ObjectId c)])
     @ [(''createdAt'', DateV (created d)), (''updatedAt'', DateV (updated d))]"

definition getStr :: "document \<Rightarrow> string \<Rightarrow> string \<Rightarrow> string" where
  "getStr d k dflt = (case map_of d k of Some (Str s) \<Rightarrow> s | _ \<Rightarrow> dflt)"

definition getCount :: "document \<Rightarrow> string \<Rightarrow> nat" where
  "getCount d k = (case map_of d k of Some (Num n) \<Rightarrow> nat n | _ \<Rightarrow> 0)"

definition getDateV :: "document \<Rightarrow> string \<Rightarrow> date \<Rightarrow> date" where
  "getDateV d k dflt = (case map_of d k of Some (DateV t) \<Rightarrow> t | _ \<Rightarrow> dflt)"

definition getRef :: "document \<Rightarrow> string \<Rightarrow> nat option" where
  "getRef d k = (case map_of d k of Some (ObjectId c) \<Rightarrow> Some c | _ \<Rightarrow> None)"

text \<open>
  The document that the model builds from an object: declared paths only, with the
  defaults of the schema for the paths that the object does not give.
\<close>

definition hydrate :: "nat \<Rightarrow> date \<Rightarrow> document \<Rightarrow> promotional_email" where
  "hydrate i now obj =
     (let d = filter (\<lambda>(k, v). k \<in> set PromotionalEmailSchema_paths) obj
      in \<lparr>oid = i, title = getStr d ''title'' [], content = getStr d ''content'' [],
          buttonText = getStr d ''buttonText'' ''Book Now'',
          buttonLink = getStr d ''buttonLink'' [],
          contactEmail = getStr d ''contactEmail'' [],
          contactPhone = getStr d ''contactPhone'' [],
          sentCount = getCount d ''sentCount'', failedCount = getCount d ''failedCount'',
          status = getStr d ''status'' ''sending'', configUsed = getRef d ''configUsed'',
          created = getDateV d ''createdAt'' now, updated = getDateV d ''updatedAt'' now,
          progress = None, endTime = None, duration = None, campaignAverageSendTime = None,
          errors = [], performanceLog = []\<rparr>)"

text \<open>
  Validation before a write: the required paths must be present and not empty, and a
  path checked against its enum must hold one of the enum's values. \<open>checked\<close> lists the
  paths to check: all of them for a new document, the modified ones afterwards.
\<close>

definition validate :: "string list \<Rightarrow> promotional_email \<Rightarrow> js_error option" where
  "validate checked d =
     (if title d = [] \<or> content d = [] \<or> buttonLink d = [] \<or> contactEmail d = []
         \<or> contactPhone d = [] \<or> configUsed d = None
      then Some (ValidationError ''PromotionalEmail validation failed: a required path is missing'')
      else if ''status'' \<in> set checked \<and> status d \<notin> set statusEnum
      then Some (ValidationError (''PromotionalEmail validation failed: status: `'' @ status d
                                   @ ''` is not a valid enum value for path `status`.''))
      else None)"

type_synonym campaign_db = "(nat \<times> document) list"

definition freshId :: "campaign_db \<Rightarrow> nat" where
  "freshId db = Suc (foldr max (map fst db) 0)"

definition create :: "date \<Rightarrow> document \<Rightarrow> campaign_db \<Rightarrow> js_error + promotional_email \<times> campaign_db" where
  "create now obj db =
     (let d = hydrate (freshId db) now obj
      in case validate PromotionalEmailSchema_paths d of
           Some e \<Rightarrow> Inl e
         | None \<Rightarrow> Inr (d, db @ [(oid d, toObject d)]))"

definition findById :: "date \<Rightarrow> nat \<Rightarrow> campaign_db \<Rightarrow> promotional_email option" where
  "findById now i db = map_option (hydrate i now) (map_of db i)"

text \<open>
  A document in memory remembers what it held when it was last read from or written to
  the database; \<^verbatim>\<open>save\<close> validates and writes the paths whose value has changed since.
\<close>

record campaign_handle =
  doc :: promotional_email
  synced :: promotional_email

definition modifiedPaths :: "campaign_handle \<Rightarrow> string list" where
  "modifiedPaths h =
     filter (\<lambda>k. map_of (toObject (doc h)) k \<noteq> map_of (toObject (synced h)) k)
       PromotionalEmailSchema_paths"

definition writePaths :: "string list \<Rightarrow> document \<Rightarrow> document \<Rightarrow> document" where
  "writePaths ks src stored =
     foldl (\<lambda>acc k. case map_of src k of Some v \<Rightarrow> AList.update k v acc | None \<Rightarrow> AList.delete k acc)
       stored ks"

definition save :: "date \<Rightarrow> campaign_handle \<Rightarrow> campaign_db \<Rightarrow> js_error option \<times> campaign_handle \<times> campaign_db" where
  "save now h db =
     (let mods = modifiedPaths h
      in case validate mods (doc h) of
           Some e \<Rightarrow> (Some e, h, db)
         | None \<Rightarrow>
             if mods = [] then (None, h, db)
             else (case map_of db (oid (doc h)) of
                     None \<Rightarrow>
                       (Some (DocumentNotFoundError ''No document found for query''), h, db)
                   | Some stored \<Rightarrow>
                       (let d = (doc h)\<lparr>updated := now\<rparr>
                        in (None, \<lparr>doc = d, synced = d\<rparr>,
                            AList.update (oid d) (writePaths (mods @ [''updatedAt'']) (toObject d) stored) db))))"

text \<open>
  The methods of a campaign document. Besides \<^verbatim>\<open>save\<close> a document has the methods that its
  schema defines (\<^verbatim>\<open>Schema.methods\<close>); \<^verbatim>\<open>PromotionalEmailSchema\<close> defines none, and the file
  of the model ends with the export of the model. A call \<^verbatim>\<open>promotionalEmail.name(...)\<close> of
  a name that is not a method throws a \<^verbatim>\<open>TypeError\<close>. The controller calls \<^verbatim>\<open>addError\<close>,
  \<^verbatim>\<open>addPerformanceLog\<close> and \<^verbatim>\<open>updateStats\<close>.
\<close>

type_synonym document_method =
  "js_value list \<Rightarrow> date \<Rightarrow> campaign_handle \<Rightarrow> campaign_db
     \<Rightarrow> js_error option \<times> campaign_handle \<times> campaign_db"

definition PromotionalEmailSchema_methods :: "(string \<times> document_method) list" where
  "PromotionalEmailSchema_methods = []"

definition callMethod :: "string \<Rightarrow> document_method" where
  "callMethod name args now h db =
     (case map_of PromotionalEmailSchema_methods name of
        None \<Rightarrow> (Some (TypeError (''promotionalEmail.'' @ name @ '' is not a function'')), h, db)
      | Some method \<Rightarrow> method args now h db)"

section \<open>The campaign controller (PromotionalEmailController)\<close>

text \<open>Of a student the controller reads the name and the address only.\<close>

record student =
  firstName :: string
  lastName :: string
  studentEmail :: string

text \<open>White space (the ASCII part of what \<^verbatim>\<open>\s\<close> and \<^verbatim>\<open>trim\<close> take for it).\<close>

definition isSpace :: "char \<Rightarrow> bool" where
  "isSpace c = (c \<in> set [CHR 0x20, CHR 0x09, CHR 0x0A, CHR 0x0B, CHR 0x0C, CHR 0x0D])"

definition plainChar :: "char \<Rightarrow> bool" where
  "plainChar c = (\<not> isSpace c \<and> c \<noteq> CHR ''@'')"

text \<open>The filter of the student query: \<^verbatim>\<open>/^[^\s@]+@[^\s@]+\.[^\s@]+$/\<close>.\<close>

definition validEmail :: "string \<Rightarrow> bool" where
  "validEmail s =
     (let localPart = takeWhile (\<lambda>c. c \<noteq> CHR ''@'') s;
          rest = dropWhile (\<lambda>c. c \<noteq> CHR ''@'') s
      in localPart \<noteq> [] \<and> list_all plainChar localPart \<and> rest \<noteq> []
         \<and> list_all plainChar (tl rest) \<and> CHR ''.'' \<in> set (butlast (tl (tl rest))))"

definition trim :: "string \<Rightarrow> string" where
  "trim s = rev (dropWhile isSpace (rev (dropWhile isSpace s)))"

record request_body =
  reqTitle :: "string option"
  reqContent :: "string option"
  reqButtonText :: "string option"
  reqButtonLink :: "string option"
  reqContactEmail :: "string option"
  reqContactPhone :: "string option"

definition falsy :: "string option \<Rightarrow> bool" where
  "falsy v = (case v of None \<Rightarrow> True | Some s \<Rightarrow> s = [])"

definition orElse :: "string option \<Rightarrow> string \<Rightarrow> string" where
  "orElse v dflt = (case v of None \<Rightarrow> dflt | Some s \<Rightarrow> if s = [] then dflt else s)"

datatype response_data =
  NoData
  | CampaignStarted nat nat string int
  | CampaignCancelled nat nat nat "int option"

datatype response = Response int bool string response_data

fun statusCode :: "response \<Rightarrow> int" where
  "statusCode (Response c s m d) = c"

record app_state =
  mail :: mail_system
  studentCollection :: "student list"
  campaigns :: campaign_db

record background_job =
  jobStudents :: "student list"
  jobCampaign :: promotional_email
  jobConfig :: email_config
  jobClientIP :: string

text \<open>The object that the handler gives to \<^verbatim>\<open>PromotionalEmail.create\<close>.\<close>

definition newCampaign :: "request_body \<Rightarrow> email_config \<Rightarrow> nat \<Rightarrow> date \<Rightarrow> document" where
  "newCampaign body emailConfig recipients now =
     [(''title'', Str (trim (orElse (reqTitle body) []))),
      (''content'', Str (trim (orElse (reqContent body) []))),
      (''buttonText'', Str (trim (orElse (reqButtonText body) ''Book Now''))),
      (''buttonLink'', Str (trim (orElse (reqButtonLink body) []))),
      (''contactEmail'', Str (trim (orElse (reqContactEmail body) []))),
      (''contactPhone'', Str (trim (orElse (reqContactPhone body) []))),
      (''configUsed'', ObjectId (configId emailConfig)),
      (''status'', Str ''sending''),
      (''totalRecipients'', Num (int recipients)),
      (''startTime'', DateV now)]"

definition sendPromotionalEmail ::
  "request_body \<Rightarrow> string \<Rightarrow> app_state \<Rightarrow> response \<times> app_state \<times> background_job option" where
  "sendPromotionalEmail body ip st =
     (if falsy (reqTitle body) \<or> falsy (reqContent body) \<or> falsy (reqButtonLink body)
         \<or> falsy (reqContactEmail body) \<or> falsy (reqContactPhone body)
      then (Response 400 False
              ''Title, content, button link, contact email and phone are required'' NoData,
            st, None)
      else case activeConfig (mail st) of
        None \<Rightarrow>
          (Response 400 False
             ''No active email configuration found. Please set up email first.'' NoData,
           st, None)
      | Some emailConfig0 \<Rightarrow>
          (let students = filter (\<lambda>s. validEmail (studentEmail s)) (studentCollection st)
           in if length students = 0
              then (Response 400 False ''No students with valid email addresses found'' NoData,
                    st, None)
              else
                (let now = clock (mail st);
                     emailConfig = resetDailyCounterIfNeeded now emailConfig0;
                     st1 = st\<lparr>mail := (mail st)\<lparr>activeConfig := Some emailConfig\<rparr>\<rparr>;
                     remainingEmails = dailyLimit emailConfig - int (emailsSentToday emailConfig)
                 in if remainingEmails < int (length students)
                    then (Response 400 False
                            (''Daily email limit exceeded. '' @ string_of_int remainingEmails
                               @ '' emails remaining, but '' @ string_of_nat (length students)
                               @ '' students to email.'') NoData,
                          st1, None)
                    else
                      (case create now (newCampaign body emailConfig (length students) now)
                              (campaigns st1) of
                         Inl e \<Rightarrow>
                           (Response 500 False ''Failed to send promotional email'' NoData, st1, None)
                       | Inr (promotionalEmail, db) \<Rightarrow>
                           (Response 200 True
                              (''Started sending promotional email to ''
                                 @ string_of_nat (length students) @ '' students'')
                              (CampaignStarted (oid promotionalEmail) (length students) ''sending''
                                 \<lceil>(of_nat (length students * 2) :: rat) / 60\<rceil>),
                            st1\<lparr>campaigns := db\<rparr>,
                            Some \<lparr>jobStudents = students, jobCampaign = promotionalEmail,
                                  jobConfig = emailConfig, jobClientIP = ip\<rparr>)))))"

definition cancelPromotionalEmail :: "nat \<Rightarrow> app_state \<Rightarrow> response \<times> app_state" where
  "cancelPromotionalEmail i st =
     (let now = clock (mail st)
      in case findById now i (campaigns st) of
           None \<Rightarrow> (Response 404 False ''Promotional email not found'' NoData, st)
         | Some found \<Rightarrow>
             if status found \<noteq> ''sending''
             then (Response 400 False
                     ''Cannot cancel campaign that is not in sending status'' NoData, st)
             else (case save now \<lparr>doc = found\<lparr>status := ''cancelled'', endTime := Some now\<rparr>,
                                   synced = found\<rparr> (campaigns st) of
                     (Some e, h, db) \<Rightarrow>
                       (Response 500 False ''Failed to cancel promotional email'' NoData, st)
                   | (None, h, db) \<Rightarrow>
                       (Response 200 True ''Email campaign cancelled successfully''
                          (CampaignCancelled (oid (doc h)) (sentCount (doc h)) (failedCount (doc h))
                             (progress (doc h))),
                        st\<lparr>campaigns := db\<rparr>)))"

section \<open>The background sender (sendEmailsInBackground)\<close>

text \<open>
  Events that the program causes and that a claim speaks of: a message handed to the mail
  transport for an address, and a wait on the timer.
\<close>

datatype effect = SendEmailTo string | Delay int

text \<open>
  The callbacks of a batch run concurrently: each is suspended at every \<^verbatim>\<open>await\<close> on the
  database or on the mail transport, and goes on when that operation ends. A run of the
  sender is therefore driven by a schedule, the list in which the pending operations of
  the callbacks end. \<open>Completes k ms\<close>: the pending operation of callback \<open>k\<close> of the batch
  ends well, \<open>ms\<close> milliseconds after the event before; \<open>Fails k ms message\<close>: it ends with
  an error (the transport refuses the message; the database is not reachable, or refuses
  a save because another save of the same document is still under way). An event for a
  callback that is waiting for nothing only lets the time pass. Between two events the
  code runs without interruption up to the next \<^verbatim>\<open>await\<close> on such an operation.
\<close>

datatype event = Completes nat nat | Fails nat nat string

fun target :: "event \<Rightarrow> nat" where
  "target (Completes k ms) = k"
| "target (Fails k ms message) = k"

fun waited :: "event \<Rightarrow> nat" where
  "waited (Completes k ms) = ms"
| "waited (Fails k ms message) = ms"

text \<open>
  Where a callback is suspended. In \<^verbatim>\<open>initializeTransporter\<close>: on \<^verbatim>\<open>findOne\<close>, on the save
  of \<^verbatim>\<open>resetDailyCounterIfNeeded\<close> and on the save of the address (each with the
  configuration document of this call). In \<^verbatim>\<open>sendEmail\<close>: on \<^verbatim>\<open>sendMail\<close>, and on the save
  that ends \<^verbatim>\<open>recordSuccessfulSend\<close> or \<^verbatim>\<open>recordFailedSend\<close> (with the document being
  written, and for a failure its message). At the end the promise of the callback is
  resolved with a result (whose \<^verbatim>\<open>success\<close> is kept) or rejected with an error.
\<close>

datatype task_phase =
    FindingConfig
  | SavingReset email_config
  | SavingAddress email_config
  | Sending
  | RecordingSuccess email_config
  | RecordingFailure email_config string
  | Resolved bool
  | Threw js_error

record task =
  taskStudent :: student
  startedAt :: date
  phase :: task_phase

text \<open>
  The sender itself waits for the batch that starts at an index (\<^verbatim>\<open>await Promise.all\<close>) or
  has ended, normally or with the error that rejects its promise.
\<close>

datatype sender_control = AwaitingBatch nat | Finished "js_error option"

text \<open>
  The state of the background sender: the mail system, the campaign collection, the
  campaign document it holds, its arguments and local variables, the callbacks of the
  current batch, and the effects so far.
\<close>

record background =
  sys :: mail_system
  store :: campaign_db
  held :: campaign_handle
  clientIP :: string
  startTime :: date
  sentSoFar :: nat
  failedSoFar :: nat
  batchSent :: nat
  batchFailed :: nat
  batchStartTime :: date
  tasks :: "task list"
  control :: sender_control
  effects :: "effect list"

definition batchSize :: nat where
  "batchSize = 10"

definition delayBetweenBatches :: int where
  "delayBetweenBatches = 2000"

definition setPhase :: "nat \<Rightarrow> task_phase \<Rightarrow> background \<Rightarrow> background" where
  "setPhase k p b = b\<lparr>tasks := (tasks b)[k := (tasks b ! k)\<lparr>phase := p\<rparr>]\<rparr>"

definition addressOf :: "nat \<Rightarrow> background \<Rightarrow> string" where
  "addressOf k b = studentEmail (taskStudent (tasks b ! k))"

definition onService :: "(email_service \<Rightarrow> email_service) \<Rightarrow> background \<Rightarrow> background" where
  "onService f b = b\<lparr>sys := (sys b)\<lparr>svc := f (svc (sys b))\<rparr>\<rparr>"

text \<open>A save of a configuration document that has ended: the database holds the document.\<close>

definition persist :: "email_config \<Rightarrow> background \<Rightarrow> background" where
  "persist config b = b\<lparr>sys := (sys b)\<lparr>activeConfig := Some config\<rparr>\<rparr>"

text \<open>
  The \<^verbatim>\<open>catch\<close> block of the callback: it counts a failure and calls
  \<^verbatim>\<open>promotionalEmail.addError\<close>; an error thrown here rejects the promise of the callback.
\<close>

definition callbackCatch :: "nat \<Rightarrow> js_error \<Rightarrow> background \<Rightarrow> background" where
  "callbackCatch k error b =
     (let b1 = b\<lparr>failedSoFar := failedSoFar b + 1, batchFailed := batchFailed b + 1\<rparr>
      in case callMethod ''addError'' [Str (addressOf k b), Str (errorMessage error)]
                (clock (sys b)) (held b) (store b) of
           (Some e, h, db) \<Rightarrow> setPhase k (Threw e) (b1\<lparr>held := h, store := db\<rparr>)
         | (None, h, db) \<Rightarrow> setPhase k (Resolved False) (b1\<lparr>held := h, store := db\<rparr>))"

text \<open>
  The callback after \<^verbatim>\<open>sendEmail\<close> has returned its result: a success is counted as sent;
  a failure is counted as failed and logged with \<^verbatim>\<open>addError\<close>, inside the \<^verbatim>\<open>try\<close>, so that
  an error thrown by that call is handled by the \<^verbatim>\<open>catch\<close> block above.
\<close>

definition callbackReturned :: "nat \<Rightarrow> bool \<Rightarrow> string \<Rightarrow> background \<Rightarrow> background" where
  "callbackReturned k ok err b =
     (if ok
      then setPhase k (Resolved True)
             (b\<lparr>sentSoFar := sentSoFar b + 1, batchSent := batchSent b + 1\<rparr>)
      else (let b1 = b\<lparr>failedSoFar := failedSoFar b + 1, batchFailed := batchFailed b + 1\<rparr>
            in case callMethod ''addError'' [Str (addressOf k b), Str err]
                      (clock (sys b)) (held b) (store b) of
                 (Some e, h, db) \<Rightarrow> callbackCatch k e (b1\<lparr>held := h, store := db\<rparr>)
               | (None, h, db) \<Rightarrow> setPhase k (Resolved False) (b1\<lparr>held := h, store := db\<rparr>)))"

text \<open>
  The \<^verbatim>\<open>catch\<close> block of \<^verbatim>\<open>sendEmail\<close>: the session counter, then
  \<^verbatim>\<open>recordFailedSend\<close> on the current configuration, whose save is awaited. Without a
  current configuration the block throws, and \<^verbatim>\<open>sendEmail\<close> rejects.
\<close>

definition sendFailed :: "nat \<Rightarrow> string \<Rightarrow> background \<Rightarrow> background" where
  "sendFailed k message b =
     (let b1 = onService (\<lambda>s. s\<lparr>performanceMetrics :=
                 (performanceMetrics s)\<lparr>sessionErrorCount :=
                    sessionErrorCount (performanceMetrics s) + 1\<rparr>\<rparr>) b
      in case currentConfig (svc (sys b)) of
           None \<Rightarrow> callbackCatch k (TypeError ''Cannot read properties of null'') b1
         | Some config \<Rightarrow>
             (let config' = recordFailedSend (clock (sys b)) message config
              in setPhase k (RecordingFailure config' message)
                   (onService (\<lambda>s. s\<lparr>currentConfig := Some config'\<rparr>) b1)))"

text \<open>
  The start of the \<^verbatim>\<open>try\<close> block of \<^verbatim>\<open>sendEmail\<close>: the message is built from the current
  configuration and handed to the transport.
\<close>

definition dispatch :: "nat \<Rightarrow> background \<Rightarrow> background" where
  "dispatch k b =
     (case currentConfig (svc (sys b)) of
        None \<Rightarrow> sendFailed k ''Cannot read properties of null'' b
      | Some config \<Rightarrow>
          setPhase k Sending (b\<lparr>effects := effects b @ [SendEmailTo (addressOf k b)]\<rparr>))"

text \<open>
  The transport has taken the message: the session metrics, then \<^verbatim>\<open>recordSuccessfulSend\<close>
  on the current configuration, whose save is awaited.
\<close>

definition delivered :: "nat \<Rightarrow> background \<Rightarrow> background" where
  "delivered k b =
     (let now = clock (sys b);
          sendTime = now - startedAt (tasks b ! k);
          b1 = onService (\<lambda>s. s\<lparr>performanceMetrics :=
                 (performanceMetrics s)\<lparr>sendTimes := sendTimes (performanceMetrics s) @ [sendTime],
                    successCount := successCount (performanceMetrics s) + 1\<rparr>\<rparr>) b
      in case currentConfig (svc (sys b)) of
           None \<Rightarrow> sendFailed k ''Cannot read properties of null'' b1
         | Some config \<Rightarrow>
             (let config' = recordSuccessfulSend now sendTime config
              in setPhase k (RecordingSuccess config')
                   (onService (\<lambda>s. s\<lparr>currentConfig := Some config'\<rparr>) b1)))"

text \<open>
  The pending operation of callback \<open>k\<close> ends well. An error thrown by
  \<^verbatim>\<open>initializeTransporter\<close> leaves \<^verbatim>\<open>sendEmail\<close> (the call is outside its \<^verbatim>\<open>try\<close>) and is
  handled by the \<^verbatim>\<open>catch\<close> block of the callback.
\<close>

definition completes :: "nat \<Rightarrow> background \<Rightarrow> background" where
  "completes k b =
     (if k < length (tasks b)
      then (case phase (tasks b ! k) of
              FindingConfig \<Rightarrow>
                (case activeConfig (sys b) of
                   None \<Rightarrow> callbackCatch k (Error ''No active email configuration found'') b
                 | Some config \<Rightarrow>
                     setPhase k (SavingReset (resetDailyCounterIfNeeded (clock (sys b)) config)) b)
            | SavingReset config \<Rightarrow>
                setPhase k
                  (SavingAddress
                     (case lastUsedIP config of
                        Some prev \<Rightarrow>
                          if truthy (clientIP b) \<and> truthy prev \<and> prev \<noteq> clientIP b
                          then recordSuspiciousActivity (clock (sys b)) (clientIP b) config
                          else config\<lparr>lastUsedIP := Some (clientIP b)\<rparr>
                      | None \<Rightarrow> config\<lparr>lastUsedIP := Some (clientIP b)\<rparr>))
                  (persist config b)
            | SavingAddress config \<Rightarrow>
                if int (emailsSentToday config) \<ge> dailyLimit config
                then callbackCatch k
                       (Error (''Daily email limit reached ('' @ string_of_int (dailyLimit config)
                                 @ '')''))
                       (persist config b)
                else dispatch k
                       (onService (\<lambda>s. s\<lparr>transporter := Some (createTransport config),
                                           currentConfig := Some config\<rparr>)
                          (persist config b))
            | Sending \<Rightarrow> delivered k b
            | RecordingSuccess config \<Rightarrow> callbackReturned k True [] (persist config b)
            | RecordingFailure config message \<Rightarrow> callbackReturned k False message (persist config b)
            | Resolved ok \<Rightarrow> b
            | Threw e \<Rightarrow> b)
      else b)"

text \<open>The pending operation of callback \<open>k\<close> ends with an error.\<close>

definition fails :: "nat \<Rightarrow> string \<Rightarrow> background \<Rightarrow> background" where
  "fails k message b =
     (if k < length (tasks b)
      then (case phase (tasks b ! k) of
              FindingConfig \<Rightarrow> callbackCatch k (Error message) b
            | SavingReset config \<Rightarrow> callbackCatch k (Error message) b
            | SavingAddress config \<Rightarrow> callbackCatch k (Error message) b
            | Sending \<Rightarrow> sendFailed k message b
            | RecordingSuccess config \<Rightarrow> sendFailed k message b
            | RecordingFailure config m \<Rightarrow> callbackCatch k (Error message) b
            | Resolved ok \<Rightarrow> b
            | Threw e \<Rightarrow> b)
      else b)"

definition deliver :: "event \<Rightarrow> background \<Rightarrow> background" where
  "deliver ev b =
     (let b1 = b\<lparr>sys := (sys b)\<lparr>clock := clock (sys b) + int (waited ev)\<rparr>\<rparr>
      in case ev of
           Completes k ms \<Rightarrow> completes k b1
         | Fails k ms message \<Rightarrow> fails k message b1)"

text \<open>
  The start of a callback, up to its first \<^verbatim>\<open>await\<close>: \<^verbatim>\<open>sendEmail\<close> reads the clock and,
  without a transporter, calls \<^verbatim>\<open>initializeTransporter\<close>, which waits for \<^verbatim>\<open>findOne\<close>; with a
  transporter it hands the message to the transport at once. \<^verbatim>\<open>batch.map\<close> starts the
  callbacks in the order of the batch.
\<close>

definition startTask :: "background \<Rightarrow> student \<Rightarrow> background" where
  "startTask b student =
     (let b1 = b\<lparr>tasks := tasks b @ [\<lparr>taskStudent = student, startedAt = clock (sys b),
                                       phase = FindingConfig\<rparr>]\<rparr>
      in case transporter (svc (sys b)) of
           None \<Rightarrow> b1
         | Some t \<Rightarrow> dispatch (length (tasks b)) b1)"

definition startBatch :: "student list \<Rightarrow> nat \<Rightarrow> background \<Rightarrow> background" where
  "startBatch students i b =
     foldl startTask
       (b\<lparr>batchSent := 0, batchFailed := 0, batchStartTime := clock (sys b), tasks := [],
          control := AwaitingBatch i\<rparr>)
       (take batchSize (drop i students))"

text \<open>
  \<^verbatim>\<open>Promise.all\<close> is rejected as soon as one callback is rejected, with its error, and
  resolved when every callback is resolved.
\<close>

fun firstThrown :: "task list \<Rightarrow> js_error option" where
  "firstThrown [] = None"
| "firstThrown (t # ts) = (case phase t of Threw e \<Rightarrow> Some e | _ \<Rightarrow> firstThrown ts)"

definition isResolved :: "task \<Rightarrow> bool" where
  "isResolved t = (case phase t of Resolved ok \<Rightarrow> True | _ \<Rightarrow> False)"

definition settled :: "background \<Rightarrow> bool" where
  "settled b \<longleftrightarrow> firstThrown (tasks b) \<noteq> None \<or> list_all isResolved (tasks b)"

text \<open>
  The lines after \<^verbatim>\<open>await Promise.all\<close>: the progress is written on the document, then
  \<^verbatim>\<open>addPerformanceLog\<close> and \<^verbatim>\<open>updateStats\<close> are called. It yields the error thrown, if any.
\<close>

definition afterBatch :: "student list \<Rightarrow> nat \<Rightarrow> background \<Rightarrow> js_error option \<times> background" where
  "afterBatch students i b =
     (let now = clock (sys b);
          batchTime = now - batchStartTime b;
          averageTime = (if batchSent b > 0
                         then Math_round (of_int batchTime / of_nat (batchSent b)) else 0);
          d = (doc (held b))\<lparr>sentCount := sentSoFar b, failedCount := failedSoFar b,
                progress := Some (Math_round (toDouble
                  (toDouble (of_nat (sentSoFar b) / of_nat (length students)) * 100)))\<rparr>
      in case callMethod ''addPerformanceLog''
                [Num (int (i div batchSize + 1)), Num (int (batchSent b)), Num (int (batchFailed b)),
                 Num averageTime]
                now ((held b)\<lparr>doc := d\<rparr>) (store b) of
           (Some e, h, db) \<Rightarrow> (Some e, b\<lparr>held := h, store := db\<rparr>)
         | (None, h, db) \<Rightarrow>
             (case callMethod ''updateStats'' [] now h db of
                (err, h', db') \<Rightarrow> (err, b\<lparr>held := h', store := db'\<rparr>)))"

text \<open>The delay between two batches.\<close>

definition pause :: "background \<Rightarrow> background" where
  "pause b =
     b\<lparr>effects := effects b @ [Delay delayBetweenBatches],
       sys := (sys b)\<lparr>clock := clock (sys b) + delayBetweenBatches\<rparr>\<rparr>"

text \<open>
  The \<^verbatim>\<open>catch\<close> block of the sender: the status failed and the end time are assigned,
  \<^verbatim>\<open>addError\<close> is called, then the document is saved. An error thrown here rejects the
  promise of the sender; nothing handles it.
\<close>

definition catchBlock :: "js_error \<Rightarrow> background \<Rightarrow> background" where
  "catchBlock error b =
     (let now = clock (sys b);
          d = (doc (held b))\<lparr>status := ''failed'', endTime := Some now\<rparr>
      in case callMethod ''addError'' [Str ''SYSTEM'', Str (errorMessage error)] now
                ((held b)\<lparr>doc := d\<rparr>) (store b) of
           (Some e, h, db) \<Rightarrow> b\<lparr>held := h, store := db, control := Finished (Some e)\<rparr>
         | (None, h, db) \<Rightarrow>
             (case save now h db of
                (err, h', db') \<Rightarrow> b\<lparr>held := h', store := db', control := Finished err\<rparr>))"

text \<open>The end of the sender, after the loop: the completion write.\<close>

definition completion :: "background \<Rightarrow> background" where
  "completion b =
     (let now = clock (sys b);
          totalTime = now - startTime b;
          d = (doc (held b))\<lparr>status := ''completed'', endTime := Some now,
                duration := Some totalTime,
                campaignAverageSendTime :=
                  Some (if sentSoFar b > 0
                        then Math_round (of_int totalTime / of_nat (sentSoFar b)) else 0)\<rparr>
      in case save now ((held b)\<lparr>doc := d\<rparr>) (store b) of
           (None, h, db) \<Rightarrow> b\<lparr>held := h, store := db, control := Finished None\<rparr>
         | (Some e, h, db) \<Rightarrow> catchBlock e (b\<lparr>held := h, store := db\<rparr>))"

text \<open>
  The sender goes on once the batch that starts at \<open>i\<close> has settled: into its \<^verbatim>\<open>catch\<close>
  block when \<^verbatim>\<open>Promise.all\<close> was rejected or a call after the batch throws; otherwise, after
  the delay, to the next batch, for which it waits unless that batch settles at once; and
  after the last batch to the completion write.
\<close>

function resume :: "student list \<Rightarrow> nat \<Rightarrow> background \<Rightarrow> background" where
  "resume students i b =
     (case firstThrown (tasks b) of
        Some e \<Rightarrow> catchBlock e b
      | None \<Rightarrow>
          (case afterBatch students i b of
             (Some e, b1) \<Rightarrow> catchBlock e b1
           | (None, b1) \<Rightarrow>
               if i + batchSize < length students
               then (if settled (startBatch students (i + batchSize) (pause b1))
                     then resume students (i + batchSize)
                            (startBatch students (i + batchSize) (pause b1))
                     else startBatch students (i + batchSize) (pause b1))
               else completion b1))"
  by pat_completeness auto
termination
  by (relation "measure (\<lambda>(students, i, b). length students - i)") (auto simp: batchSize_def)

declare resume.simps [simp del]

text \<open>One event of the schedule: the callback goes on, and then the sender if it can.\<close>

definition step :: "student list \<Rightarrow> event \<Rightarrow> background \<Rightarrow> background" where
  "step students ev b =
     (let b1 = deliver ev b
      in case control b1 of
           AwaitingBatch i \<Rightarrow> if settled b1 then resume students i b1 else b1
         | Finished err \<Rightarrow> b1)"

text \<open>
  The sender from its call to its first \<^verbatim>\<open>await\<close>: the first batch is started when there
  is a recipient (\<^verbatim>\<open>0 < students.length\<close>), and the completion write follows at once when
  there is none.
\<close>

definition begin_sender ::
  "student list \<Rightarrow> promotional_email \<Rightarrow> string \<Rightarrow> mail_system \<Rightarrow> campaign_db \<Rightarrow> background" where
  "begin_sender students promotionalEmail ip m db =
     (let b0 = \<lparr>sys = m, store = db,
                held = \<lparr>doc = promotionalEmail, synced = promotionalEmail\<rparr>,
                clientIP = ip, startTime = clock m, sentSoFar = 0, failedSoFar = 0,
                batchSent = 0, batchFailed = 0, batchStartTime = clock m, tasks = [],
                control = AwaitingBatch 0, effects = []\<rparr>
      in if 0 < length students
         then (if settled (startBatch students 0 b0)
               then resume students 0 (startBatch students 0 b0)
               else startBatch students 0 b0)
         else completion b0)"

text \<open>
  The background sender under a schedule: the state it has reached when the events of the
  schedule have happened. (\<^verbatim>\<open>emailConfig\<close> is a parameter that the function does not use.)
\<close>

definition sendEmailsInBackground ::
  "event list \<Rightarrow> student list \<Rightarrow> promotional_email \<Rightarrow> email_config \<Rightarrow> string \<Rightarrow> mail_system
     \<Rightarrow> campaign_db \<Rightarrow> background" where
  "sendEmailsInBackground events students promotionalEmail emailConfig ip m db =
     foldl (\<lambda>b ev. step students ev b) (begin_sender students promotionalEmail ip m db) events"

section \<open>Example data\<close>

text \<open>
  A configuration on 2 November 2026 (UTC) with five messages left of its daily limit, a
  service with no transporter yet, and a request body.
\<close>

definition demoMidnight :: date where
  "demoMidnight = 1793577600000"

definition demoConfig :: email_config where
  "demoConfig =
     \<lparr>configId = 7, service = ''gmail'', email = ''noreply@educonnect.com'',
      appPassword = ''abcdabcdabcdabcd'', fromName = ''EduConnect Consultancy'', isActive = True,
      dailyLimit = 500, emailsSentToday = 495, lastResetDate = demoMidnight,
      monthlyEmailsSent = 495, currentMonth = ''2026-11'', totalEmailsSent = 495,
      totalEmailsFailed = 5, successRate = 99, errorCount = 5, lastErrorMessage = [],
      lastErrorAt = None, consecutiveFailures = 0, lastSuccessfulSend = None,
      averageSendTime = 100, lastUsedIP = None, suspiciousActivityCount = 0,
      lastSuspiciousActivity = None, createdAt = demoMidnight, updatedAt = demoMidnight\<rparr>"

definition demoService :: email_service where
  "demoService =
     \<lparr>transporter = None, currentConfig = None,
      performanceMetrics = \<lparr>sendTimes = [], sessionErrorCount = 0, successCount = 0\<rparr>\<rparr>"

definition demoBody :: request_body where
  "demoBody =
     \<lparr>reqTitle = Some ''Study abroad fair'', reqContent = Some ''Meet our counsellors'',
      reqButtonText = None, reqButtonLink = Some ''https://educonnect.com/fair'',
      reqContactEmail = Some ''info@educonnect.com'', reqContactPhone = Some ''+977-1-1234567''\<rparr>"

definition demoStudent :: "nat \<Rightarrow> student" where
  "demoStudent n =
     \<lparr>firstName = ''Student'', lastName = string_of_nat n,
      studentEmail = ''s'' @ string_of_nat n @ ''@example.org''\<rparr>"

text \<open>The application one hour into the day, with \<open>n\<close> students and no campaign yet.\<close>

definition demoState :: "nat \<Rightarrow> email_config \<Rightarrow> app_state" where
  "demoState n c =
     \<lparr>mail = \<lparr>svc = demoService, activeConfig = Some c, clock = demoMidnight + 3600000\<rparr>,
      studentCollection = map demoStudent [0..<n], campaigns = []\<rparr>"

text \<open>A transport that accepts every message after 120 ms.\<close>

definition demoTransport :: "mail_message \<Rightarrow> smtp_outcome" where
  "demoTransport msg = Accepted ''<demo@educonnect.com>'' 120"

text \<open>
  A service whose transporter was initialised earlier in the day and whose configuration
  has since used up its daily limit.
\<close>

definition demoExhausted :: email_config where
  "demoExhausted = demoConfig\<lparr>emailsSentToday := 500\<rparr>"

definition demoInitialized :: mail_system where
  "demoInitialized =
     \<lparr>svc = \<lparr>transporter = Some (createTransport demoExhausted),
              currentConfig = Some demoExhausted,
              performanceMetrics = \<lparr>sendTimes = [], sessionErrorCount = 0, successCount = 0\<rparr>\<rparr>,
      activeConfig = Some demoExhausted, clock = demoMidnight + 3600000\<rparr>"

text \<open>A campaign as the handler creates it, its stored document, and a mail system.\<close>

definition demoCampaign :: promotional_email where
  "demoCampaign =
     \<lparr>oid = 1, title = ''Study abroad fair'', content = ''Meet our counsellors'',
      buttonText = ''Book Now'', buttonLink = ''https://educonnect.com/fair'',
      contactEmail = ''info@educonnect.com'', contactPhone = ''+977-1-1234567'',
      sentCount = 0, failedCount = 0, status = ''sending'', configUsed = Some 7,
      created = demoMidnight + 3600000, updated = demoMidnight + 3600000,
      progress = None, endTime = None, duration = None, campaignAverageSendTime = None,
      errors = [], performanceLog = []\<rparr>"

definition demoMail :: mail_system where
  "demoMail = \<lparr>svc = demoService, activeConfig = Some (demoConfig\<lparr>emailsSentToday := 0\<rparr>),
               clock = demoMidnight + 3600000\<rparr>"

text \<open>The application with that campaign stored and 25 students.\<close>

definition demoApp :: app_state where
  "demoApp =
     \<lparr>mail = demoMail, studentCollection = map demoStudent [0..<25],
      campaigns = [(1, toObject demoCampaign)]\<rparr>"

section \<open>Documents that pass validation\<close>

text \<open>The required paths of a campaign document are present.\<close>

definition requiredPresent :: "promotional_email \<Rightarrow> bool" where
  "requiredPresent d \<longleftrightarrow>
     title d \<noteq> [] \<and> content d \<noteq> [] \<and> buttonLink d \<noteq> [] \<and> contactEmail d \<noteq> []
     \<and> contactPhone d \<noteq> [] \<and> configUsed d \<noteq> None"


section \<open>Arithmetic and calendar facts\<close>

lemma Math_round_divide: "0 < b \<Longrightarrow> Math_round (of_int a / of_int b) = (2 * a + b) div (2 * b)"
proof -
  assume b: "0 < b"
  have "(of_int a / of_int b + 1 / 2 :: rat) = of_int (2 * a + b) / of_int (2 * b)"
    using b by (simp add: field_simps)
  then show ?thesis
    unfolding Math_round_def by (simp only: floor_divide_of_int_eq)
qed

lemma Math_round_numeral_divide [simp]:
  "Math_round (numeral a / numeral b) = (2 * numeral a + numeral b) div (2 * numeral b)"
  using Math_round_divide [of "numeral b" "numeral a"] by simp

lemma Math_round_of_int [simp]: "Math_round (of_int k) = k"
  by (simp add: Math_round_def) linarith

lemma Math_round_numeral [simp]: "Math_round (numeral k) = numeral k"
  using Math_round_of_int [of "numeral k"] by simp

lemma Math_round_0 [simp]: "Math_round 0 = 0"
  using Math_round_of_int [of 0] by simp

text \<open>Rounding to a double, evaluated on numerals.\<close>

lemma floor_rat_numeral [simp]: "\<lfloor>(numeral a / numeral b :: rat)\<rfloor> = numeral a div numeral b"
  using floor_divide_of_int_eq [of "numeral a" "numeral b", where ?'a = rat] by simp

lemma ceiling_rat_numeral [simp]:
  "\<lceil>(numeral a / numeral b :: rat)\<rceil> = - (- numeral a div numeral b)"
  using floor_divide_of_int_eq [of "- numeral a" "numeral b", where ?'a = rat]
  by (simp add: ceiling_def)

lemmas double_defs = toDouble_def ulp_def exponentOf_def roundTiesToEven_def bitLength.simps

lemma toDouble_23_of_40: "toDouble (23 / 40) = 5179139571476070 / 2 ^ 53"
  by (simp add: double_defs)

lemma percent_23_of_40: "Math_round (toDouble (toDouble (23 / 40) * 100)) = 57"
  by (simp add: double_defs Math_round_def)

lemma percent_496_of_501: "Math_round (toDouble (toDouble (496 / 501) * 100)) = 99"
  by (simp add: double_defs Math_round_def)

lemma exact_23_of_40: "Math_round (100 * 23 / 40) = 58"
  by simp

lemmas calendar_defs = toDateString_def monthKey_def getDay_def getMonth_def getDate_def
  getFullYear_def epochDay_def civilYear_def civilMonth_def civilDay_def marchMonth_def
  dayOfMarchYear_def yearOfEra_def dayOfEra_def msPerDay_def yearString_def padStart_def
  string_of_int_def dayNames_def monthNames_def demoMidnight_def string_of_nat.simps

lemma demoConfig_fields:
  "totalEmailsSent demoConfig = 495" "totalEmailsFailed demoConfig = 5"
  "emailsSentToday demoConfig = 495" "averageSendTime demoConfig = 100"
  "dailyLimit demoConfig = 500" "lastResetDate demoConfig = demoMidnight"
  "currentMonth demoConfig = ''2026-11''" "monthlyEmailsSent demoConfig = 495"
  by (simp_all add: demoConfig_def)

lemma demo_days:
  "toDateString (demoMidnight + 7200000) = toDateString (demoMidnight + 3600000)"
  "monthKey (demoMidnight + 7200000) = monthKey (demoMidnight + 3600000)"
  "toDateString (demoMidnight + 3600000) \<noteq> toDateString (demoMidnight - 3600000)"
  "toDateString (demoMidnight + 3600000) = toDateString demoMidnight"
  "monthKey (demoMidnight + 3600000) = ''2026-11''"
  "toDateString demoMidnight \<noteq> toDateString (demoMidnight - 3600000)"
  by (simp_all add: calendar_defs)

section \<open>The sender configuration\<close>

text \<open>
  C7, as the code has it. \<^verbatim>\<open>recordSuccessfulSend(t)\<close> adds 1 to \<^verbatim>\<open>totalEmailsSent\<close>,
  \<^verbatim>\<open>emailsSentToday\<close> and \<^verbatim>\<open>monthlyEmailsSent\<close>, sets \<^verbatim>\<open>lastSuccessfulSend\<close> to now and
  \<^verbatim>\<open>consecutiveFailures\<close> to 0, and recomputes \<^verbatim>\<open>successRate\<close> over the new totals as
  \<^verbatim>\<open>Math.round((totalEmailsSent / totalAttempts) * 100)\<close> in the arithmetic of doubles: the
  quotient is rounded to a double, its product with 100 is rounded to a double, and that
  is rounded to the nearest integer (\<^verbatim>\<open>updateSuccessRate\<close> gives 0 when the denominator is
  0). The running mean round((averageSendTime * (attempts - 1) + t) / attempts) replaces
  \<^verbatim>\<open>averageSendTime\<close> only when \<open>t\<close> is not 0: the update is guarded by \<^verbatim>\<open>if (sendTime)\<close>, and a
  send time of 0 ms leaves the average as it was.
\<close>

theorem recordSuccessfulSend_effect:
  "totalEmailsSent (recordSuccessfulSend now t c) = totalEmailsSent c + 1
   \<and> emailsSentToday (recordSuccessfulSend now t c) = emailsSentToday c + 1
   \<and> monthlyEmailsSent (recordSuccessfulSend now t c) = monthlyEmailsSent c + 1
   \<and> totalEmailsFailed (recordSuccessfulSend now t c) = totalEmailsFailed c
   \<and> lastSuccessfulSend (recordSuccessfulSend now t c) = Some now
   \<and> consecutiveFailures (recordSuccessfulSend now t c) = 0
   \<and> averageSendTime (recordSuccessfulSend now t c) =
       (if t = 0 then averageSendTime c
        else Math_round (of_int (averageSendTime c
                                  * (int (totalEmailsSent (recordSuccessfulSend now t c)
                                          + totalEmailsFailed (recordSuccessfulSend now t c)) - 1) + t)
                         / of_nat (totalEmailsSent (recordSuccessfulSend now t c)
                                   + totalEmailsFailed (recordSuccessfulSend now t c))))
   \<and> successRate (recordSuccessfulSend now t c) =
       Math_round (toDouble
         (toDouble (of_nat (totalEmailsSent (recordSuccessfulSend now t c))
                    / of_nat (totalEmailsSent (recordSuccessfulSend now t c)
                              + totalEmailsFailed (recordSuccessfulSend now t c)))
          * 100))
   \<and> (totalEmailsSent c + totalEmailsFailed c = 0 \<longrightarrow> successRate (updateSuccessRate c) = 0)"
  by (simp add: recordSuccessfulSend_def updateSuccessRate_def Let_def ac_simps)

text \<open>
  The theorem at the example configuration (495 sent, 5 failed, average 100 ms) with a send
  of 300 ms, and at a configuration that has made no attempt yet.
\<close>

theorem recordSuccessfulSend_effect_witness:
  "totalEmailsSent (recordSuccessfulSend demoMidnight 300 demoConfig) = 496
   \<and> emailsSentToday (recordSuccessfulSend demoMidnight 300 demoConfig) = 496
   \<and> consecutiveFailures (recordSuccessfulSend demoMidnight 300 demoConfig) = 0
   \<and> averageSendTime (recordSuccessfulSend demoMidnight 300 demoConfig) = 100
   \<and> successRate (recordSuccessfulSend demoMidnight 300 demoConfig) = 99
   \<and> totalEmailsSent (demoConfig\<lparr>totalEmailsSent := 0, totalEmailsFailed := 0\<rparr>)
       + totalEmailsFailed (demoConfig\<lparr>totalEmailsSent := 0, totalEmailsFailed := 0\<rparr>) = 0
   \<and> successRate (updateSuccessRate (demoConfig\<lparr>totalEmailsSent := 0, totalEmailsFailed := 0\<rparr>)) = 0"
  using recordSuccessfulSend_effect [of demoMidnight 300 demoConfig]
    recordSuccessfulSend_effect [of demoMidnight 300 "demoConfig\<lparr>totalEmailsSent := 0, totalEmailsFailed := 0\<rparr>"]
  by (simp add: demoConfig_fields percent_496_of_501)

text \<open>
  The claim as stated fails in two places. For a send time of 0 ms, with an average of
  100 ms after one attempt, the code keeps 100 where the running mean of the claim is 50.
  And with 22 messages sent and 17 failed, the next successful send makes the success
  rate 57, where round(100 * 23 / 40) is 58.
\<close>

theorem recordSuccessfulSend_counterexample:
  "averageSendTime (recordSuccessfulSend demoMidnight 0
      (demoConfig\<lparr>totalEmailsSent := 1, totalEmailsFailed := 0\<rparr>)) = 100
   \<and> Math_round (of_int (averageSendTime (demoConfig\<lparr>totalEmailsSent := 1, totalEmailsFailed := 0\<rparr>)
                            * (int (1 + 1 + 0) - 1) + 0) / of_nat (1 + 1 + 0)) = 50
   \<and> successRate (recordSuccessfulSend demoMidnight 300
        (demoConfig\<lparr>totalEmailsSent := 22, totalEmailsFailed := 17\<rparr>)) = 57
   \<and> Math_round (100 * of_nat (22 + 1) / of_nat (22 + 1 + 17)) = 58"
  by (simp add: recordSuccessfulSend_def updateSuccessRate_def demoConfig_fields percent_23_of_40)

text \<open>
  C8. \<^verbatim>\<open>resetDailyCounterIfNeeded\<close> is idempotent within a day and month: a second call
  on the same day and in the same month changes nothing of the configuration (so neither
  \<^verbatim>\<open>emailsSentToday\<close>, \<^verbatim>\<open>lastResetDate\<close>, \<^verbatim>\<open>monthlyEmailsSent\<close> nor \<^verbatim>\<open>currentMonth\<close>); and
  when \<^verbatim>\<open>lastResetDate\<close> is on another day, one call sets \<^verbatim>\<open>emailsSentToday\<close> to 0 and
  \<^verbatim>\<open>lastResetDate\<close> to the current date.
\<close>

theorem resetDailyCounterIfNeeded_idempotent:
  "(toDateString now2 = toDateString now1 \<and> monthKey now2 = monthKey now1
      \<longrightarrow> resetDailyCounterIfNeeded now2 (resetDailyCounterIfNeeded now1 c)
            = resetDailyCounterIfNeeded now1 c)
   \<and> (toDateString now1 \<noteq> toDateString (lastResetDate c)
      \<longrightarrow> emailsSentToday (resetDailyCounterIfNeeded now1 c) = 0
          \<and> lastResetDate (resetDailyCounterIfNeeded now1 c) = now1)"
  by (simp add: resetDailyCounterIfNeeded_def Let_def)

text \<open>
  The theorem for a configuration last reset at 23:00 the day before with 450 messages
  sent, and two calls at 01:00 and at 02:00 of 2 November 2026.
\<close>

theorem resetDailyCounterIfNeeded_idempotent_witness:
  "toDateString (demoMidnight + 7200000) = toDateString (demoMidnight + 3600000)
   \<and> monthKey (demoMidnight + 7200000) = monthKey (demoMidnight + 3600000)
   \<and> resetDailyCounterIfNeeded (demoMidnight + 7200000)
        (resetDailyCounterIfNeeded (demoMidnight + 3600000)
           (demoConfig\<lparr>emailsSentToday := 450, lastResetDate := demoMidnight - 3600000\<rparr>))
      = resetDailyCounterIfNeeded (demoMidnight + 3600000)
          (demoConfig\<lparr>emailsSentToday := 450, lastResetDate := demoMidnight - 3600000\<rparr>)
   \<and> toDateString (demoMidnight + 3600000) \<noteq> toDateString (demoMidnight - 3600000)
   \<and> emailsSentToday (demoConfig\<lparr>emailsSentToday := 450, lastResetDate := demoMidnight - 3600000\<rparr>) = 450
   \<and> emailsSentToday (resetDailyCounterIfNeeded (demoMidnight + 3600000)
        (demoConfig\<lparr>emailsSentToday := 450, lastResetDate := demoMidnight - 3600000\<rparr>)) = 0
   \<and> lastResetDate (resetDailyCounterIfNeeded (demoMidnight + 3600000)
        (demoConfig\<lparr>emailsSentToday := 450, lastResetDate := demoMidnight - 3600000\<rparr>))
      = demoMidnight + 3600000"
  using resetDailyCounterIfNeeded_idempotent [of "demoMidnight + 7200000" "demoMidnight + 3600000"
      "demoConfig\<lparr>emailsSentToday := 450, lastResetDate := demoMidnight - 3600000\<rparr>"]
    demo_days
  by simp

text \<open>
  C9. \<^verbatim>\<open>recordFailedSend(m)\<close> adds 1 to \<^verbatim>\<open>totalEmailsFailed\<close>, \<^verbatim>\<open>errorCount\<close> and
  \<^verbatim>\<open>consecutiveFailures\<close>, sets \<^verbatim>\<open>lastErrorMessage\<close> to \<open>m\<close> and \<^verbatim>\<open>lastErrorAt\<close> to now,
  recomputes \<^verbatim>\<open>successRate\<close> over the new totals (what \<^verbatim>\<open>updateSuccessRate\<close> computes:
  \<^verbatim>\<open>Math.round((totalEmailsSent / totalAttempts) * 100)\<close> in the arithmetic of doubles), and
  leaves \<^verbatim>\<open>averageSendTime\<close> (and the counters of sent messages) as they were.
\<close>

theorem recordFailedSend_effect:
  "totalEmailsFailed (recordFailedSend now m c) = totalEmailsFailed c + 1
   \<and> errorCount (recordFailedSend now m c) = errorCount c + 1
   \<and> consecutiveFailures (recordFailedSend now m c) = consecutiveFailures c + 1
   \<and> lastErrorMessage (recordFailedSend now m c) = m
   \<and> lastErrorAt (recordFailedSend now m c) = Some now
   \<and> successRate (recordFailedSend now m c) =
       Math_round (toDouble
         (toDouble (of_nat (totalEmailsSent (recordFailedSend now m c))
                    / of_nat (totalEmailsSent (recordFailedSend now m c)
                              + totalEmailsFailed (recordFailedSend now m c)))
          * 100))
   \<and> averageSendTime (recordFailedSend now m c) = averageSendTime c
   \<and> totalEmailsSent (recordFailedSend now m c) = totalEmailsSent c
   \<and> emailsSentToday (recordFailedSend now m c) = emailsSentToday c"
  by (simp add: recordFailedSend_def updateSuccessRate_def Let_def ac_simps)

text \<open>
  With 23 messages sent and 16 failed, one more failure makes the success rate 57: the
  two roundings to a double take the product below 57.5.
\<close>

lemma recordFailedSend_23_of_40:
  "successRate (recordFailedSend demoMidnight ''Connection timeout''
      (demoConfig\<lparr>totalEmailsSent := 23, totalEmailsFailed := 16\<rparr>)) = 57"
  by (simp add: recordFailedSend_def updateSuccessRate_def percent_23_of_40)

section \<open>The email service\<close>

text \<open>
  C10. When the service holds a transporter, \<^verbatim>\<open>sendEmail\<close> neither resets the daily
  counter nor checks the daily limit: whatever \<^verbatim>\<open>emailsSentToday\<close>, \<^verbatim>\<open>dailyLimit\<close> and
  \<^verbatim>\<open>lastResetDate\<close> are, a message that the transport accepts is reported as sent, and the
  configuration kept by the service is the old one with the successful send recorded:
  \<^verbatim>\<open>emailsSentToday\<close> is one more, also from a state where it had reached the limit.
\<close>

theorem sendEmail_initialized_no_limit_check:
  assumes "transporter (svc m) = Some t" and "currentConfig (svc m) = Some c"
    and "sendMail \<lparr>mailFrom = [CHR 0x22] @ fromName c @ [CHR 0x22] @ '' <'' @ email c @ ''>'',
                   mailTo = toAddr, subject = subj, html = body\<rparr> = Accepted messageId elapsed"
  shows "fst (sendEmail sendMail toAddr subj body ip m) = Inr (SendSucceeded messageId elapsed)
    \<and> currentConfig (svc (snd (sendEmail sendMail toAddr subj body ip m)))
        = Some (recordSuccessfulSend (clock m + elapsed) elapsed c)
    \<and> activeConfig (snd (sendEmail sendMail toAddr subj body ip m))
        = Some (recordSuccessfulSend (clock m + elapsed) elapsed c)
    \<and> emailsSentToday (recordSuccessfulSend (clock m + elapsed) elapsed c) = emailsSentToday c + 1
    \<and> lastResetDate (recordSuccessfulSend (clock m + elapsed) elapsed c) = lastResetDate c
    \<and> dailyLimit (recordSuccessfulSend (clock m + elapsed) elapsed c) = dailyLimit c"
  using assms
  by (simp add: sendEmail_def transmit_def Let_def recordSuccessfulSend_def updateSuccessRate_def)

text \<open>
  The theorem for a service initialised earlier whose configuration has sent 500 of its
  500 daily messages: the next send succeeds and makes it 501.
\<close>

theorem sendEmail_initialized_no_limit_check_witness:
  "transporter (svc demoInitialized) = Some (createTransport demoExhausted)
   \<and> currentConfig (svc demoInitialized) = Some demoExhausted
   \<and> int (emailsSentToday demoExhausted) \<ge> dailyLimit demoExhausted
   \<and> fst (sendEmail demoTransport ''s1@example.org'' ''Hello'' ''<p>Hello</p>'' ''203.0.113.9'' demoInitialized)
       = Inr (SendSucceeded ''<demo@educonnect.com>'' 120)
   \<and> map_option emailsSentToday
        (currentConfig (svc (snd (sendEmail demoTransport ''s1@example.org'' ''Hello'' ''<p>Hello</p>''
                                    ''203.0.113.9'' demoInitialized)))) = Some 501
   \<and> map_option dailyLimit
        (currentConfig (svc (snd (sendEmail demoTransport ''s1@example.org'' ''Hello'' ''<p>Hello</p>''
                                    ''203.0.113.9'' demoInitialized)))) = Some 500"
proof -
  have t: "transporter (svc demoInitialized) = Some (createTransport demoExhausted)"
    and c: "currentConfig (svc demoInitialized) = Some demoExhausted"
    by (simp_all add: demoInitialized_def)
  have f: "emailsSentToday demoExhausted = 500" "dailyLimit demoExhausted = 500"
    by (simp_all add: demoExhausted_def demoConfig_fields)
  show ?thesis
    using sendEmail_initialized_no_limit_check [OF t c, of demoTransport "''s1@example.org''" "''Hello''"
        "''<p>Hello</p>''" "''<demo@educonnect.com>''" 120 "''203.0.113.9''"] t c f
    by (simp add: demoTransport_def)
qed

section \<open>The example students\<close>

text \<open>Every example student has an address that the filter of the student query accepts.\<close>

lemma string_of_nat_plain: "list_all plainChar (string_of_nat n)"
proof (induction n rule: string_of_nat.induct)
  case (1 n)
  have d: "plainChar (''0123456789'' ! k)" if "k < 10" for k
  proof -
    from that have "k \<in> {0,1,2,3,4,5,6,7,8,9}" by auto
    then show ?thesis by (auto simp: plainChar_def isSpace_def)
  qed
  show ?case
  proof (cases "n < 10")
    case True
    then show ?thesis by (subst string_of_nat.simps) (simp add: d)
  next
    case False
    with 1 show ?thesis by (subst string_of_nat.simps) (simp add: d)
  qed
qed

lemma demoStudent_valid: "validEmail (studentEmail (demoStudent n))"
proof -
  have p: "list_all plainChar (string_of_nat n)" by (rule string_of_nat_plain)
  then have noat: "\<forall>c \<in> set (string_of_nat n). c \<noteq> CHR ''@''"
    by (simp add: list_all_iff plainChar_def)
  have tw: "takeWhile (\<lambda>c. c \<noteq> CHR ''@'') (string_of_nat n @ ''@example.org'') = string_of_nat n"
    using noat by (simp add: takeWhile_append2)
  have dw: "dropWhile (\<lambda>c. c \<noteq> CHR ''@'') (string_of_nat n @ ''@example.org'') = ''@example.org''"
    using noat by (simp add: dropWhile_append2)
  show ?thesis
    using p by (simp add: validEmail_def demoStudent_def tw dw Let_def plainChar_def isSpace_def)
qed

lemma demoStudents_valid:
  "filter (\<lambda>s. validEmail (studentEmail s)) (map demoStudent [0..<n]) = map demoStudent [0..<n]"
  by (simp add: demoStudent_valid)


section \<open>Documents and saving\<close>

lemma toObject_lookup:
  "map_of (toObject d) ''status'' = Some (Str (status d))"
  "map_of (toObject d) ''sentCount'' = Some (Num (int (sentCount d)))"
  "map_of (toObject d) ''failedCount'' = Some (Num (int (failedCount d)))"
  "map_of (toObject d) ''totalRecipients'' = None"
  "map_of (toObject d) ''progress'' = None"
  by (simp_all add: toObject_def split: option.splits)

lemma status_modified:
  "''status'' \<in> set (modifiedPaths h) \<longleftrightarrow> status (doc h) \<noteq> status (synced h)"
proof -
  have "''status'' \<in> set PromotionalEmailSchema_paths"
    by (simp add: PromotionalEmailSchema_paths_def)
  then show ?thesis
    unfolding modifiedPaths_def set_filter by (simp add: toObject_lookup)
qed


section \<open>What the handler accepts\<close>

lemma create_result:
  assumes "create now obj db = Inr (d, db')"
  shows "d = hydrate (freshId db) now obj" and "requiredPresent d"
    and "db' = db @ [(oid d, toObject d)]" and "map_of db' (oid d) \<noteq> None"
proof -
  from assms show d: "d = hydrate (freshId db) now obj"
    by (auto simp: create_def Let_def split: option.splits)
  from assms have "validate PromotionalEmailSchema_paths d = None"
    by (auto simp: create_def Let_def split: option.splits)
  then show "requiredPresent d"
    by (auto simp: validate_def requiredPresent_def split: if_splits)
  from assms show db': "db' = db @ [(oid d, toObject d)]"
    by (auto simp: create_def Let_def split: option.splits)
  show "map_of db' (oid d) \<noteq> None"
    unfolding db' by (simp add: map_of_eq_None_iff)
qed

lemma hydrate_fields:
  "oid (hydrate i now obj) = i"
  "performanceLog (hydrate i now obj) = []"
  "errors (hydrate i now obj) = []"
  "progress (hydrate i now obj) = None"
  by (simp_all add: hydrate_def Let_def)

lemma hydrate_status:
  "map_of obj ''status'' = Some (Str s) \<Longrightarrow> status (hydrate i now obj) = s"
proof -
  assume a: "map_of obj ''status'' = Some (Str s)"
  have "map_of (filter (\<lambda>(k, v). k \<in> set PromotionalEmailSchema_paths) obj) ''status''
          = map_of obj ''status''"
    by (induction obj) (auto simp: PromotionalEmailSchema_paths_def)
  then show ?thesis
    using a by (simp add: hydrate_def Let_def getStr_def)
qed

lemma accepted_job:
  assumes "sendPromotionalEmail body ip st = (r, st', Some job)"
  shows "jobStudents job = filter (\<lambda>s. validEmail (studentEmail s)) (studentCollection st)"
    and "jobStudents job \<noteq> []"
    and "requiredPresent (jobCampaign job)"
    and "status (jobCampaign job) = ''sending''"
    and "performanceLog (jobCampaign job) = []"
    and "map_of (campaigns st') (oid (jobCampaign job)) \<noteq> None"
    and "(oid (jobCampaign job), toObject (jobCampaign job)) \<in> set (campaigns st')"
proof -
  let ?students = "filter (\<lambda>s. validEmail (studentEmail s)) (studentCollection st)"
  from assms obtain c0 db where
    ne: "?students \<noteq> []"
    and cr: "create (clock (mail st))
               (newCampaign body (resetDailyCounterIfNeeded (clock (mail st)) c0)
                  (length ?students) (clock (mail st)))
               (campaigns st)
             = Inr (jobCampaign job, db)"
    and js: "jobStudents job = ?students"
    and st': "campaigns st' = db"
    unfolding sendPromotionalEmail_def Let_def
    by (auto split: if_splits option.splits sum.splits)
  have obj: "map_of (newCampaign body (resetDailyCounterIfNeeded (clock (mail st)) c0)
                  (length ?students) (clock (mail st))) ''status'' = Some (Str ''sending'')"
    by (simp add: newCampaign_def)
  note C = create_result [OF cr]
  show "jobStudents job = ?students" by (rule js)
  show "jobStudents job \<noteq> []" using js ne by simp
  show "requiredPresent (jobCampaign job)" by (rule C(2))
  show "status (jobCampaign job) = ''sending''"
    by (subst C(1)) (rule hydrate_status [OF obj])
  show "performanceLog (jobCampaign job) = []"
    by (subst C(1)) (simp add: hydrate_fields)
  show "map_of (campaigns st') (oid (jobCampaign job)) \<noteq> None"
    using C(4) st' by simp
  show "(oid (jobCampaign job), toObject (jobCampaign job)) \<in> set (campaigns st')"
    using C(3) st' by simp
qed

lemma reset_fields:
  "dailyLimit (resetDailyCounterIfNeeded now c) = dailyLimit c"
  "configId (resetDailyCounterIfNeeded now c) = configId c"
  "emailsSentToday (resetDailyCounterIfNeeded now c)
     = (if toDateString now = toDateString (lastResetDate c) then emailsSentToday c else 0)"
  by (simp_all add: resetDailyCounterIfNeeded_def Let_def)

lemma quota_preflight:
  assumes "\<not> falsy (reqTitle body)" "\<not> falsy (reqContent body)" "\<not> falsy (reqButtonLink body)"
    "\<not> falsy (reqContactEmail body)" "\<not> falsy (reqContactPhone body)"
    and "activeConfig (mail st) = Some c"
    and "filter (\<lambda>s. validEmail (studentEmail s)) (studentCollection st) \<noteq> []"
    and "dailyLimit (resetDailyCounterIfNeeded (clock (mail st)) c)
           - int (emailsSentToday (resetDailyCounterIfNeeded (clock (mail st)) c))
         < int (length (filter (\<lambda>s. validEmail (studentEmail s)) (studentCollection st)))"
  shows "sendPromotionalEmail body ip st =
     (Response 400 False
        (''Daily email limit exceeded. ''
           @ string_of_int (dailyLimit (resetDailyCounterIfNeeded (clock (mail st)) c)
                            - int (emailsSentToday (resetDailyCounterIfNeeded (clock (mail st)) c)))
           @ '' emails remaining, but ''
           @ string_of_nat (length (filter (\<lambda>s. validEmail (studentEmail s)) (studentCollection st)))
           @ '' students to email.'') NoData,
      st\<lparr>mail := (mail st)\<lparr>activeConfig := Some (resetDailyCounterIfNeeded (clock (mail st)) c)\<rparr>\<rparr>,
      None)"
  using assms unfolding sendPromotionalEmail_def Let_def by simp

lemma hydrate_newCampaign:
  "title (hydrate i now (newCampaign body c n t)) = trim (orElse (reqTitle body) [])"
  "content (hydrate i now (newCampaign body c n t)) = trim (orElse (reqContent body) [])"
  "buttonLink (hydrate i now (newCampaign body c n t)) = trim (orElse (reqButtonLink body) [])"
  "contactEmail (hydrate i now (newCampaign body c n t)) = trim (orElse (reqContactEmail body) [])"
  "contactPhone (hydrate i now (newCampaign body c n t)) = trim (orElse (reqContactPhone body) [])"
  "configUsed (hydrate i now (newCampaign body c n t)) = Some (configId c)"
  "status (hydrate i now (newCampaign body c n t)) = ''sending''"
  by (simp_all add: hydrate_def newCampaign_def PromotionalEmailSchema_paths_def getStr_def getRef_def Let_def)

lemma accepts:
  assumes "\<not> falsy (reqTitle body)" "\<not> falsy (reqContent body)" "\<not> falsy (reqButtonLink body)"
    "\<not> falsy (reqContactEmail body)" "\<not> falsy (reqContactPhone body)"
    and "trim (orElse (reqTitle body) []) \<noteq> []" "trim (orElse (reqContent body) []) \<noteq> []"
    "trim (orElse (reqButtonLink body) []) \<noteq> []" "trim (orElse (reqContactEmail body) []) \<noteq> []"
    "trim (orElse (reqContactPhone body) []) \<noteq> []"
    and "activeConfig (mail st) = Some c"
    and "filter (\<lambda>s. validEmail (studentEmail s)) (studentCollection st) \<noteq> []"
    and "\<not> dailyLimit (resetDailyCounterIfNeeded (clock (mail st)) c)
           - int (emailsSentToday (resetDailyCounterIfNeeded (clock (mail st)) c))
         < int (length (filter (\<lambda>s. validEmail (studentEmail s)) (studentCollection st)))"
  shows "\<exists>r st' job. sendPromotionalEmail body ip st = (r, st', Some job)
           \<and> jobStudents job = filter (\<lambda>s. validEmail (studentEmail s)) (studentCollection st)"
proof -
  have v: "validate PromotionalEmailSchema_paths
             (hydrate i now (newCampaign body c' n t)) = None" for i now c' n t
    using assms(6-10)
    by (simp add: validate_def hydrate_newCampaign statusEnum_def)
  show ?thesis
    using assms(1-5,11-13) unfolding sendPromotionalEmail_def Let_def create_def
    by (simp add: v)
qed

lemma demoBody_ok:
  "\<not> falsy (reqTitle demoBody)" "\<not> falsy (reqContent demoBody)" "\<not> falsy (reqButtonLink demoBody)"
  "\<not> falsy (reqContactEmail demoBody)" "\<not> falsy (reqContactPhone demoBody)"
  "trim (orElse (reqTitle demoBody) []) \<noteq> []" "trim (orElse (reqContent demoBody) []) \<noteq> []"
  "trim (orElse (reqButtonLink demoBody) []) \<noteq> []" "trim (orElse (reqContactEmail demoBody) []) \<noteq> []"
  "trim (orElse (reqContactPhone demoBody) []) \<noteq> []"
  by (simp_all add: demoBody_def falsy_def orElse_def trim_def isSpace_def)

lemma demoState_fields:
  "activeConfig (mail (demoState n c)) = Some c"
  "clock (mail (demoState n c)) = demoMidnight + 3600000"
  "campaigns (demoState n c) = []"
  "filter (\<lambda>s. validEmail (studentEmail s)) (studentCollection (demoState n c)) = map demoStudent [0..<n]"
  by (simp_all add: demoState_def demoStudents_valid)


section \<open>Stored campaigns and the examples\<close>

lemma freshId_greater: "i \<in> set (map fst db) \<Longrightarrow> i < freshId db"
  unfolding freshId_def by (induction db) (auto simp: less_Suc_eq_le le_max_iff_disj)

lemma create_lookup:
  assumes "create now obj db = Inr (d, db')"
  shows "map_of db' (oid d) = Some (toObject d)"
proof -
  note C = create_result [OF assms]
  have "oid d = freshId db" by (subst C(1)) (simp add: hydrate_fields)
  then have "oid d \<notin> set (map fst db)" using freshId_greater [of "oid d" db] by auto
  then have "map_of db (oid d) = None" by (simp add: map_of_eq_None_iff)
  then show ?thesis by (simp add: C(3) map_add_def)
qed

lemma accepted_lookup:
  assumes "sendPromotionalEmail body ip st = (r, st', Some job)"
  shows "map_of (campaigns st') (oid (jobCampaign job)) = Some (toObject (jobCampaign job))"
proof -
  from assms obtain obj db0 where
    cr: "create (clock (mail st)) obj db0 = Inr (jobCampaign job, campaigns st')"
    unfolding sendPromotionalEmail_def Let_def
    by (auto split: if_splits option.splits sum.splits)
  show ?thesis by (rule create_lookup [OF cr])
qed

lemma demoCampaign_fields:
  "oid demoCampaign = 1" "status demoCampaign = ''sending''" "requiredPresent demoCampaign"
  "performanceLog demoCampaign = []"
  by (simp_all add: demoCampaign_def requiredPresent_def)


section \<open>Starting a campaign\<close>

text \<open>
  C1, as the code has it. When, after the daily reset check, the remaining daily quota
  \<^verbatim>\<open>dailyLimit - emailsSentToday\<close> is less than the number of valid recipients, the request
  is refused with the quota error (status 400, "Daily email limit exceeded"), no campaign
  record is created and no background sender starts. The refused call leaves
  \<^verbatim>\<open>emailsSentToday\<close> as the reset check left it: unchanged when \<^verbatim>\<open>lastResetDate\<close> is on
  the current day, 0 otherwise (the reset is saved before the quota is compared).
\<close>

theorem sendPromotionalEmail_quota_refused:
  assumes "\<not> falsy (reqTitle body)" "\<not> falsy (reqContent body)" "\<not> falsy (reqButtonLink body)"
    "\<not> falsy (reqContactEmail body)" "\<not> falsy (reqContactPhone body)"
    and "activeConfig (mail st) = Some c"
    and "filter (\<lambda>s. validEmail (studentEmail s)) (studentCollection st) \<noteq> []"
    and "dailyLimit (resetDailyCounterIfNeeded (clock (mail st)) c)
           - int (emailsSentToday (resetDailyCounterIfNeeded (clock (mail st)) c))
         < int (length (filter (\<lambda>s. validEmail (studentEmail s)) (studentCollection st)))"
  shows "fst (sendPromotionalEmail body ip st) =
      Response 400 False
        (''Daily email limit exceeded. ''
           @ string_of_int (dailyLimit c
                            - int (emailsSentToday (resetDailyCounterIfNeeded (clock (mail st)) c)))
           @ '' emails remaining, but ''
           @ string_of_nat (length (filter (\<lambda>s. validEmail (studentEmail s)) (studentCollection st)))
           @ '' students to email.'') NoData
    \<and> snd (snd (sendPromotionalEmail body ip st)) = None
    \<and> campaigns (fst (snd (sendPromotionalEmail body ip st))) = campaigns st
    \<and> activeConfig (mail (fst (snd (sendPromotionalEmail body ip st))))
        = Some (resetDailyCounterIfNeeded (clock (mail st)) c)
    \<and> emailsSentToday (resetDailyCounterIfNeeded (clock (mail st)) c)
        = (if toDateString (clock (mail st)) = toDateString (lastResetDate c)
           then emailsSentToday c else 0)"
  using quota_preflight [OF assms, of ip] by (simp add: reset_fields)

text \<open>
  The theorem for the configuration with 495 of 500 messages sent today and 10 students:
  the request is refused, no campaign is stored, and \<^verbatim>\<open>emailsSentToday\<close> stays 495.
\<close>

theorem sendPromotionalEmail_quota_refused_witness:
  "\<not> falsy (reqTitle demoBody) \<and> \<not> falsy (reqContent demoBody) \<and> \<not> falsy (reqButtonLink demoBody)
   \<and> \<not> falsy (reqContactEmail demoBody) \<and> \<not> falsy (reqContactPhone demoBody)
   \<and> activeConfig (mail (demoState 10 demoConfig)) = Some demoConfig
   \<and> filter (\<lambda>s. validEmail (studentEmail s)) (studentCollection (demoState 10 demoConfig)) \<noteq> []
   \<and> dailyLimit (resetDailyCounterIfNeeded (clock (mail (demoState 10 demoConfig))) demoConfig)
        - int (emailsSentToday (resetDailyCounterIfNeeded (clock (mail (demoState 10 demoConfig))) demoConfig))
      < int (length (filter (\<lambda>s. validEmail (studentEmail s)) (studentCollection (demoState 10 demoConfig))))
   \<and> snd (snd (sendPromotionalEmail demoBody ''203.0.113.9'' (demoState 10 demoConfig))) = None
   \<and> campaigns (fst (snd (sendPromotionalEmail demoBody ''203.0.113.9'' (demoState 10 demoConfig)))) = []
   \<and> map_option emailsSentToday
        (activeConfig (mail (fst (snd (sendPromotionalEmail demoBody ''203.0.113.9''
                                         (demoState 10 demoConfig)))))) = Some 495"
proof -
  have q: "dailyLimit (resetDailyCounterIfNeeded (clock (mail (demoState 10 demoConfig))) demoConfig)
        - int (emailsSentToday (resetDailyCounterIfNeeded (clock (mail (demoState 10 demoConfig))) demoConfig))
      < int (length (filter (\<lambda>s. validEmail (studentEmail s)) (studentCollection (demoState 10 demoConfig))))"
    and n: "filter (\<lambda>s. validEmail (studentEmail s)) (studentCollection (demoState 10 demoConfig)) \<noteq> []"
    by (simp_all add: demoState_fields reset_fields demoConfig_fields demo_days)
  show ?thesis
    using sendPromotionalEmail_quota_refused [OF demoBody_ok(1-5) demoState_fields(1) n q,
        of "''203.0.113.9''"] demoBody_ok(1-5) n q
    by (simp add: demoState_fields reset_fields demoConfig_fields demo_days)
qed

text \<open>
  The claim as stated fails when the counter was last reset on an earlier day: with a
  limit of 5, \<^verbatim>\<open>emailsSentToday\<close> = 3 from the day before and 10 students, the request is
  refused for quota and the refused call has set \<^verbatim>\<open>emailsSentToday\<close> from 3 to 0.
\<close>

theorem sendPromotionalEmail_quota_counterexample:
  "statusCode (fst (sendPromotionalEmail demoBody ''203.0.113.9''
      (demoState 10 (demoConfig\<lparr>dailyLimit := 5, emailsSentToday := 3,
                                 lastResetDate := demoMidnight - 3600000\<rparr>)))) = 400
   \<and> snd (snd (sendPromotionalEmail demoBody ''203.0.113.9''
      (demoState 10 (demoConfig\<lparr>dailyLimit := 5, emailsSentToday := 3,
                                 lastResetDate := demoMidnight - 3600000\<rparr>)))) = None
   \<and> map_option emailsSentToday
        (activeConfig (mail (demoState 10 (demoConfig\<lparr>dailyLimit := 5, emailsSentToday := 3,
                                 lastResetDate := demoMidnight - 3600000\<rparr>)))) = Some 3
   \<and> map_option emailsSentToday
        (activeConfig (mail (fst (snd (sendPromotionalEmail demoBody ''203.0.113.9''
      (demoState 10 (demoConfig\<lparr>dailyLimit := 5, emailsSentToday := 3,
                                 lastResetDate := demoMidnight - 3600000\<rparr>))))))) = Some 0"
proof -
  let ?c = "demoConfig\<lparr>dailyLimit := 5, emailsSentToday := 3, lastResetDate := demoMidnight - 3600000\<rparr>"
  have q: "dailyLimit (resetDailyCounterIfNeeded (clock (mail (demoState 10 ?c))) ?c)
        - int (emailsSentToday (resetDailyCounterIfNeeded (clock (mail (demoState 10 ?c))) ?c))
      < int (length (filter (\<lambda>s. validEmail (studentEmail s)) (studentCollection (demoState 10 ?c))))"
    and n: "filter (\<lambda>s. validEmail (studentEmail s)) (studentCollection (demoState 10 ?c)) \<noteq> []"
    and z: "emailsSentToday (resetDailyCounterIfNeeded (demoMidnight + 3600000) ?c) = 0"
    by (simp_all add: demoState_fields reset_fields demo_days)
  show ?thesis
    using quota_preflight [OF demoBody_ok(1-5) demoState_fields(1) n q, of "''203.0.113.9''"] z
    by (simp add: demoState_fields)
qed

text \<open>
  C6, at an accepted campaign. The handler gives \<^verbatim>\<open>totalRecipients\<close> to \<^verbatim>\<open>create\<close> (and the
  sender later assigns \<^verbatim>\<open>progress\<close>), but \<^verbatim>\<open>PromotionalEmailSchema\<close> declares neither path:
  the record stored for an accepted campaign, found by its id, has no \<^verbatim>\<open>totalRecipients\<close>
  and no \<^verbatim>\<open>progress\<close>, where the claim has every persisted record carry both.
\<close>

theorem accepted_campaign_stored_without_totalRecipients:
  assumes "sendPromotionalEmail body ip st = (r, st', Some job)"
  shows "\<exists>stored. map_of (campaigns st') (oid (jobCampaign job)) = Some stored
           \<and> map_of stored ''totalRecipients'' = None
           \<and> map_of stored ''progress'' = None
           \<and> map_of stored ''sentCount'' = Some (Num (int (sentCount (jobCampaign job))))
           \<and> map_of stored ''status'' = Some (Str ''sending'')"
  using accepted_lookup [OF assms] accepted_job(4) [OF assms] by (simp add: toObject_lookup)

text \<open>
  The theorem for a request with one student and the whole daily limit left: the request
  is accepted, and the stored record has no \<^verbatim>\<open>totalRecipients\<close> and no \<^verbatim>\<open>progress\<close>.
\<close>

theorem accepted_campaign_stored_without_totalRecipients_witness:
  "\<exists>r st' job stored.
      sendPromotionalEmail demoBody ''203.0.113.9'' (demoState 1 (demoConfig\<lparr>emailsSentToday := 0\<rparr>))
        = (r, st', Some job)
      \<and> length (jobStudents job) = 1
      \<and> map_of (campaigns st') (oid (jobCampaign job)) = Some stored
      \<and> map_of stored ''totalRecipients'' = None
      \<and> map_of stored ''progress'' = None"
proof -
  let ?st = "demoState 1 (demoConfig\<lparr>emailsSentToday := 0\<rparr>)"
  have "\<exists>r st' job. sendPromotionalEmail demoBody ''203.0.113.9'' ?st = (r, st', Some job)
           \<and> jobStudents job = filter (\<lambda>s. validEmail (studentEmail s)) (studentCollection ?st)"
    by (rule accepts [OF demoBody_ok demoState_fields(1)])
      (simp_all add: demoState_fields reset_fields demoConfig_fields)
  then obtain r st' job where
    a: "sendPromotionalEmail demoBody ''203.0.113.9'' ?st = (r, st', Some job)"
    and j: "jobStudents job = filter (\<lambda>s. validEmail (studentEmail s)) (studentCollection ?st)"
    by blast
  have l: "length (jobStudents job) = 1" using j by (simp add: demoState_fields)
  from accepted_campaign_stored_without_totalRecipients [OF a]
  obtain stored where "map_of (campaigns st') (oid (jobCampaign job)) = Some stored"
    and "map_of stored ''totalRecipients'' = None" and "map_of stored ''progress'' = None"
    by (elim exE conjE)
  with a l show ?thesis by (intro exI conjI)
qed


section \<open>Cancelling a campaign\<close>

text \<open>
  C4, at a campaign whose status is sending. \<^verbatim>\<open>cancelPromotionalEmail\<close> assigns the status
  cancelled, which is not among the values that \<^verbatim>\<open>PromotionalEmailSchema\<close> allows for
  \<^verbatim>\<open>status\<close>; the save is rejected by validation, the handler answers 500 "Failed to cancel
  promotional email", and the stored record stays as it was, where the claim has the
  cancellation succeed and persist.
\<close>

theorem cancelPromotionalEmail_sending_fails:
  assumes "map_option status (findById (clock (mail st)) i (campaigns st)) = Some ''sending''"
  shows "cancelPromotionalEmail i st
           = (Response 500 False ''Failed to cancel promotional email'' NoData, st)"
proof -
  from assms obtain found where f: "findById (clock (mail st)) i (campaigns st) = Some found"
    and s: "status found = ''sending''"
    by auto
  let ?h = "\<lparr>doc = found\<lparr>status := ''cancelled'', endTime := Some (clock (mail st))\<rparr>, synced = found\<rparr>"
  have m: "''status'' \<in> set (modifiedPaths ?h)"
    using s by (simp add: status_modified)
  have "validate (modifiedPaths ?h) (doc ?h) \<noteq> None"
    using m by (simp add: validate_def statusEnum_def)
  then obtain e where "save (clock (mail st)) ?h (campaigns st) = (Some e, ?h, campaigns st)"
    by (auto simp: save_def Let_def)
  then show ?thesis
    using f s by (simp add: cancelPromotionalEmail_def Let_def)
qed

text \<open>
  The theorem for the application that holds the example campaign, whose status is
  sending: the cancel request is answered 500 and the stored status is still sending.
\<close>

theorem cancelPromotionalEmail_sending_fails_witness:
  "map_option status (findById (clock (mail demoApp)) 1 (campaigns demoApp)) = Some ''sending''
   \<and> cancelPromotionalEmail 1 demoApp
       = (Response 500 False ''Failed to cancel promotional email'' NoData, demoApp)
   \<and> map_option (\<lambda>d. map_of d ''status'') (map_of (campaigns (snd (cancelPromotionalEmail 1 demoApp))) 1)
       = Some (Some (Str ''sending''))"
proof -
  have c: "campaigns demoApp = [(1, toObject demoCampaign)]" by (simp add: demoApp_def)
  have h: "map_option status (findById (clock (mail demoApp)) 1 (campaigns demoApp)) = Some ''sending''"
    unfolding c findById_def
    using hydrate_status [OF toObject_lookup(1), of 1 "clock (mail demoApp)" demoCampaign]
    by (simp add: demoCampaign_fields)
  show ?thesis
    using cancelPromotionalEmail_sending_fails [OF h] h
    by (simp add: c toObject_lookup demoCampaign_fields)
qed

end
